theory Spec2Isabelle
  imports Complex_Main
begin

section \<open>Python values and errors\<close>

text \<open>
  The notebooks are Python. Every exception the modelled code can raise is a value of
  \<open>py_error\<close>; a computation that may raise returns \<open>py_error + 'a\<close>.
\<close>

datatype py_error = IndexError | KeyError | AssertionError | ValueError | AttributeError
  | RuntimeError | ZeroDivisionError | MisconfigurationException

text \<open>
  Python list indexing \<open>xs[i]\<close>: an index from \<open>-len(xs)\<close> up to \<open>-1\<close> counts
  from the end, anything outside \<open>-len(xs) .. len(xs) - 1\<close> raises.
\<close>

definition py_index :: "'a list \<Rightarrow> int \<Rightarrow> py_error + 'a" where
  "py_index xs i =
     (if 0 \<le> i \<and> i < int (length xs) then Inr (xs ! nat i)
      else if i < 0 \<and> - int (length xs) \<le> i then Inr (xs ! nat (int (length xs) + i))
      else Inl IndexError)"

section \<open>Hyperparameter sampling (02_resnet.ipynb)\<close>

text \<open>
  \<open>search_space\<close> is a dictionary literal; Python dictionaries iterate in insertion
  order, so it is an association list. Each leaf is the two-element list
  \<open>[low, high]\<close>. Floats are idealised as reals.
\<close>

type_synonym space = "(string \<times> (string \<times> real list) list) list"

definition search_space :: space where
  "search_space =
     [(''optimizer'', [(''lr'', [1 / 10 ^ 7, 1 / 10 ^ 5]),
                       (''weight_decay'', [1 / 100, 1 / 10])]),
      (''scheduler'', [(''step_size'', [5, 10]),
                       (''gamma'', [1 / 10, 1 / 2])])]"

definition n_samples :: nat where
  "n_samples = 5"

text \<open>
  \<open>np.random.uniform(low, high)\<close> is library code reading the global generator. The
  generator is a parameter: \<open>u i\<close> is the \<open>i\<close>-th unit sample it produces and the
  state is the number of samples consumed. The library computes
  \<open>low + (high - low) * sample\<close>.
\<close>

type_synonym rng = "nat \<Rightarrow> real"

definition uniform :: "rng \<Rightarrow> real \<Rightarrow> real \<Rightarrow> nat \<Rightarrow> real \<times> nat" where
  "uniform u low high pos = (low + (high - low) * u pos, Suc pos)"

type_synonym hyperparameters = "string \<rightharpoonup> (string \<rightharpoonup> real)"

text \<open>
  The inner loop \<open>for subkey, subvalue in value.items()\<close>. The right-hand side
  \<open>np.random.uniform(subvalue[0], subvalue[1])\<close> is evaluated first, then
  \<open>hyperparameters[key]\<close> is looked up and its entry \<open>subkey\<close> is stored.
\<close>

fun sample_subkeys ::
  "rng \<Rightarrow> string \<Rightarrow> (string \<times> real list) list \<Rightarrow> hyperparameters \<Rightarrow> nat
   \<Rightarrow> py_error + (hyperparameters \<times> nat)" where
  "sample_subkeys u key [] h pos = Inr (h, pos)"
| "sample_subkeys u key ((subkey, subvalue) # rest) h pos =
     (case py_index subvalue 0 of
        Inl e \<Rightarrow> Inl e
      | Inr low \<Rightarrow>
          (case py_index subvalue 1 of
             Inl e \<Rightarrow> Inl e
           | Inr high \<Rightarrow>
               (case uniform u low high pos of
                  (v, pos') \<Rightarrow>
                    (case h key of
                       None \<Rightarrow> Inl KeyError
                     | Some d \<Rightarrow> sample_subkeys u key rest (h(key \<mapsto> d(subkey \<mapsto> v))) pos'))))"

text \<open>The outer loop \<open>for key, value in search_space.items()\<close>.\<close>

fun sample_keys ::
  "rng \<Rightarrow> space \<Rightarrow> hyperparameters \<Rightarrow> nat \<Rightarrow> py_error + (hyperparameters \<times> nat)" where
  "sample_keys u [] h pos = Inr (h, pos)"
| "sample_keys u ((key, value) # rest) h pos =
     (case sample_subkeys u key value (h(key \<mapsto> Map.empty)) pos of
        Inl e \<Rightarrow> Inl e
      | Inr (h', pos') \<Rightarrow> sample_keys u rest h' pos')"

definition generate_hyperparameters :: "rng \<Rightarrow> nat \<Rightarrow> py_error + (hyperparameters \<times> nat)" where
  "generate_hyperparameters u pos = sample_keys u search_space Map.empty pos"

text \<open>
  Reading one leaf of a sampled dictionary: \<open>hyperparameters[key][subkey]\<close>, with
  \<open>None\<close> where a key is missing.
\<close>

definition leaf :: "hyperparameters \<Rightarrow> string \<Rightarrow> string \<Rightarrow> real option" where
  "leaf h key subkey = (case h key of None \<Rightarrow> None | Some d \<Rightarrow> d subkey)"

section \<open>Tensors and the regression data (01 notebook)\<close>

text \<open>
  A tensor is its shape and its elements in row-major order. Only the library
  operations the notebook calls are modelled, over reals.
\<close>

record tensor =
  shape :: "nat list"
  data :: "real list"

definition numel :: "tensor \<Rightarrow> nat" where
  "numel t = prod_list (shape t)"

text \<open>\<open>torch.linspace(start, end, steps)\<close>: a negative \<open>steps\<close> is refused.\<close>

definition linspace :: "real \<Rightarrow> real \<Rightarrow> int \<Rightarrow> py_error + tensor" where
  "linspace start stop steps =
     (if steps < 0 then Inl RuntimeError
      else if steps = 1 then Inr \<lparr>shape = [1], data = [start]\<rparr>
      else Inr \<lparr>shape = [nat steps],
                data = map (\<lambda>i. start + real i * ((stop - start) / real (nat steps - 1)))
                           [0..<nat steps]\<rparr>)"

text \<open>
  \<open>t.view(*dims)\<close>: at most one dimension may be \<open>-1\<close>, which is inferred from the
  number of elements; any other mismatch is refused.
\<close>

definition view :: "tensor \<Rightarrow> int list \<Rightarrow> py_error + tensor" where
  "view t dims =
     (let known = prod_list (map nat (filter (\<lambda>d. d \<noteq> - 1) dims));
          holes = length (filter (\<lambda>d. d = - 1) dims)
      in if list_ex (\<lambda>d. d < - 1) dims \<or> 1 < holes then Inl RuntimeError
         else if holes = 1 then
           (if known = 0 \<or> numel t mod known \<noteq> 0 then Inl RuntimeError
            else Inr \<lparr>shape = map (\<lambda>d. if d = - 1 then numel t div known else nat d) dims,
                      data = data t\<rparr>)
         else if known = numel t then Inr \<lparr>shape = map nat dims, data = data t\<rparr>
         else Inl RuntimeError)"

text \<open>
  \<open>torch.randn_like(t)\<close>: a tensor of the shape of \<open>t\<close> filled from the generator;
  \<open>z i\<close> is the \<open>i\<close>-th normal sample it produces.
\<close>

definition randn_like :: "rng \<Rightarrow> tensor \<Rightarrow> nat \<Rightarrow> tensor \<times> nat" where
  "randn_like z t pos =
     (\<lparr>shape = shape t, data = map z [pos..<pos + numel t]\<rparr>, pos + numel t)"

definition scalar_mul :: "real \<Rightarrow> tensor \<Rightarrow> tensor" where
  "scalar_mul c t = \<lparr>shape = shape t, data = map (\<lambda>v. c * v) (data t)\<rparr>"

text \<open>
  \<open>a + b\<close> on tensors of one shape is elementwise. Broadcasting between different
  shapes does not occur in the notebook and is left out: it is reported as an error.
\<close>

definition tensor_add :: "tensor \<Rightarrow> tensor \<Rightarrow> py_error + tensor" where
  "tensor_add a b =
     (if shape a = shape b
      then Inr \<lparr>shape = shape a, data = map (\<lambda>(v, w). v + w) (zip (data a) (data b))\<rparr>
      else Inl RuntimeError)"

text \<open>
  The cell \<open>x = torch.linspace(0, 1, 500).view(-1, 1)\<close>,
  \<open>y = x + 0.2 * torch.randn_like(x)\<close>.
\<close>

definition regression_data :: "rng \<Rightarrow> nat \<Rightarrow> py_error + (tensor \<times> tensor \<times> nat)" where
  "regression_data z pos =
     (case linspace 0 1 500 of
        Inl e \<Rightarrow> Inl e
      | Inr t \<Rightarrow>
          (case view t [- 1, 1] of
             Inl e \<Rightarrow> Inl e
           | Inr x \<Rightarrow>
               (case randn_like z x pos of
                  (noise, pos') \<Rightarrow>
                    (case tensor_add x (scalar_mul (2 / 10) noise) of
                       Inl e \<Rightarrow> Inl e
                     | Inr y \<Rightarrow> Inr (x, y, pos')))))"

section \<open>Plotting (01 notebook)\<close>

text \<open>
  The plotting library is an effect: \<open>visualize\<close> returns the calls it issues, in
  order. \<open>t.flatten()\<close> is the element list; on \<open>None\<close> the attribute access raises.
\<close>

datatype plot_call =
    Subplots "nat \<times> nat"
  | Scatterplot "real list" "real list" string "string option"
  | Lineplot "real list" "real list" string string string
  | AxSet string string string
  | Show

definition flatten :: "tensor \<Rightarrow> real list" where
  "flatten t = data t"

definition py_flatten :: "tensor option \<Rightarrow> py_error + real list" where
  "py_flatten t = (case t of None \<Rightarrow> Inl AttributeError | Some v \<Rightarrow> Inr (flatten v))"

text \<open>
  \<open>sns.scatterplot(x=.., y=..)\<close> and \<open>sns.lineplot(x=.., y=..)\<close> refuse two vectors
  of different lengths with a \<open>ValueError\<close>; otherwise the call is issued.
\<close>

definition scatterplot ::
  "real list \<Rightarrow> real list \<Rightarrow> string \<Rightarrow> string option \<Rightarrow> py_error + plot_call" where
  "scatterplot xs ys label color =
     (if length xs = length ys then Inr (Scatterplot xs ys label color) else Inl ValueError)"

definition lineplot ::
  "real list \<Rightarrow> real list \<Rightarrow> string \<Rightarrow> string \<Rightarrow> string \<Rightarrow> py_error + plot_call" where
  "lineplot xs ys linestyle color label =
     (if length xs = length ys then Inr (Lineplot xs ys linestyle color label)
      else Inl ValueError)"

text \<open>
  \<open>visualize\<close>: the figure, the observations, the ground-truth line, the
  predictions when \<open>y_pred is not None\<close>, the axis labels and \<open>plt.show()\<close>. An
  exception of a plotting call ends the function there.
\<close>

definition visualize :: "tensor \<Rightarrow> tensor \<Rightarrow> tensor option \<Rightarrow> py_error + plot_call list" where
  "visualize x y y_pred =
     (case scatterplot (flatten x) (flatten y) ''Observations'' None of
        Inl e \<Rightarrow> Inl e
      | Inr observations \<Rightarrow>
          (case lineplot (flatten x) (flatten x) ''--'' ''red'' ''Ground truth'' of
             Inl e \<Rightarrow> Inl e
           | Inr truth \<Rightarrow>
               (case (if y_pred \<noteq> None
                      then (case py_flatten y_pred of
                              Inl e \<Rightarrow> Inl e
                            | Inr p \<Rightarrow>
                                (case scatterplot (flatten x) p ''Predictions'' (Some ''green'') of
                                   Inl e \<Rightarrow> Inl e
                                 | Inr predictions \<Rightarrow> Inr [predictions]))
                      else Inr []) of
                  Inl e \<Rightarrow> Inl e
                | Inr layers \<Rightarrow>
                    Inr ([Subplots (6, 6), observations, truth] @ layers
                         @ [AxSet ''X'' ''Y'' ''Simple linear regression dataset'', Show]))))"

definition is_predictions :: "plot_call \<Rightarrow> bool" where
  "is_predictions c = (case c of Scatterplot _ _ l _ \<Rightarrow> l = ''Predictions'' | _ \<Rightarrow> False)"

section \<open>Datasets, loaders and data modules\<close>

text \<open>
  \<open>torch.utils.data.TensorDataset(*tensors)\<close> asserts that all tensors agree in
  their first dimension; \<open>size(0)\<close> of a tensor without dimensions raises.
\<close>

record tensor_dataset =
  tensors :: "tensor list"

definition size0 :: "tensor \<Rightarrow> py_error + nat" where
  "size0 t = (case shape t of [] \<Rightarrow> Inl IndexError | n # _ \<Rightarrow> Inr n)"

definition TensorDataset :: "tensor \<Rightarrow> tensor \<Rightarrow> py_error + tensor_dataset" where
  "TensorDataset a b =
     (case size0 a of
        Inl e \<Rightarrow> Inl e
      | Inr n \<Rightarrow>
          (case size0 b of
             Inl e \<Rightarrow> Inl e
           | Inr m \<Rightarrow> if n = m then Inr \<lparr>tensors = [a, b]\<rparr> else Inl AssertionError))"

text \<open>\<open>len(dataset)\<close> and \<open>dataset[i]\<close>: the \<open>i\<close>-th row of every tensor.\<close>

definition dataset_len :: "tensor_dataset \<Rightarrow> py_error + nat" where
  "dataset_len ds = (case tensors ds of [] \<Rightarrow> Inl IndexError | t # _ \<Rightarrow> size0 t)"

definition row :: "tensor \<Rightarrow> nat \<Rightarrow> tensor" where
  "row t i =
     (let w = prod_list (tl (shape t))
      in \<lparr>shape = tl (shape t), data = take w (drop (i * w) (data t))\<rparr>)"

definition getitem :: "tensor_dataset \<Rightarrow> nat \<Rightarrow> tensor list" where
  "getitem ds i = map (\<lambda>t. row t i) (tensors ds)"

text \<open>
  \<open>torch.utils.data.DataLoader\<close> is library code: a loader is the record of the
  arguments it was built with. The arguments the notebooks never pass keep the
  library's default \<open>None\<close>. The constructor builds the default samplers and
  refuses what they refuse: with \<open>shuffle\<close> the random sampler asks for
  \<open>len(dataset)\<close> and refuses an empty data set, and the batch sampler refuses a
  batch size that is not positive, each with a \<open>ValueError\<close>. The first argument is
  the \<open>__len__\<close> of the data set.
\<close>

datatype py_callable = Callable string

record 'd dataloader =
  loader_dataset :: 'd
  loader_batch_size :: int
  loader_shuffle :: bool
  loader_num_workers :: nat
  loader_sampler :: "py_callable option"
  loader_batch_sampler :: "py_callable option"
  loader_collate_fn :: "py_callable option"

definition RandomSampler_check :: "py_error + nat \<Rightarrow> py_error + unit" where
  "RandomSampler_check num_samples =
     (case num_samples of
        Inl e \<Rightarrow> Inl e
      | Inr n \<Rightarrow> if n = 0 then Inl ValueError else Inr ())"

definition DataLoader ::
  "('d \<Rightarrow> py_error + nat) \<Rightarrow> 'd \<Rightarrow> int \<Rightarrow> bool \<Rightarrow> nat \<Rightarrow> py_error + 'd dataloader" where
  "DataLoader len ds bs sh nw =
     (case (if sh then RandomSampler_check (len ds) else Inr ()) of
        Inl e \<Rightarrow> Inl e
      | Inr _ \<Rightarrow>
          if bs \<le> 0 then Inl ValueError
          else Inr \<lparr>loader_dataset = ds, loader_batch_size = bs, loader_shuffle = sh,
                    loader_num_workers = nw, loader_sampler = None,
                    loader_batch_sampler = None, loader_collate_fn = None\<rparr>)"

text \<open>
  Iterating a loader with the default sampler and batch sampler: the indices in
  order, or in the permutation \<open>perm\<close> the random sampler draws when \<open>shuffle\<close> is
  set, cut into batches of \<open>batch_size\<close>; the last batch may be shorter. A record
  that the constructor refuses stands for no loader, and iterating it gives the
  constructor's error.
\<close>

function chunks :: "nat \<Rightarrow> 'a list \<Rightarrow> 'a list list" where
  "chunks n xs = (if n = 0 \<or> xs = [] then [] else take n xs # chunks n (drop n xs))"
  by pat_completeness auto
termination
  by (relation "measure (\<lambda>(n, xs). length xs)") auto

declare chunks.simps [simp del]

definition loader_batches ::
  "tensor_dataset dataloader \<Rightarrow> nat list \<Rightarrow> py_error + tensor list list list" where
  "loader_batches dl perm =
     (case DataLoader dataset_len (loader_dataset dl) (loader_batch_size dl) (loader_shuffle dl)
             (loader_num_workers dl) of
        Inl e \<Rightarrow> Inl e
      | Inr _ \<Rightarrow>
          (case dataset_len (loader_dataset dl) of
             Inl e \<Rightarrow> Inl e
           | Inr n \<Rightarrow>
               Inr (map (map (getitem (loader_dataset dl)))
                      (chunks (nat (loader_batch_size dl))
                         (if loader_shuffle dl then perm else [0..<n])))))"

text \<open>
  Both data-module classes have the same three attributes. The class bodies
  define \<open>__init__\<close>, \<open>train_dataloader\<close> and \<open>val_dataloader\<close> and nothing else;
  the library's data-module interface has four loader hooks.
\<close>

definition dataloader_hooks :: "string list" where
  "dataloader_hooks =
     [''train_dataloader'', ''val_dataloader'', ''test_dataloader'', ''predict_dataloader'']"

definition DataModule_methods :: "string list" where
  "DataModule_methods = [''__init__'', ''train_dataloader'', ''val_dataloader'']"

definition DataModuleCIFAR10_methods :: "string list" where
  "DataModuleCIFAR10_methods = [''__init__'', ''train_dataloader'', ''val_dataloader'']"

record 'd data_module =
  train_dataset :: 'd
  val_dataset :: 'd
  batch_size :: int

text \<open>\<open>DataModule\<close> of the regression notebook.\<close>

definition DataModule_init :: "tensor \<Rightarrow> tensor \<Rightarrow> int \<Rightarrow> py_error + tensor_dataset data_module" where
  "DataModule_init x y bs =
     (case TensorDataset x y of
        Inl e \<Rightarrow> Inl e
      | Inr tr \<Rightarrow>
          (case TensorDataset x y of
             Inl e \<Rightarrow> Inl e
           | Inr va \<Rightarrow> Inr \<lparr>train_dataset = tr, val_dataset = va, batch_size = bs\<rparr>))"

definition DataModule_train_dataloader ::
  "tensor_dataset data_module \<Rightarrow> py_error + tensor_dataset dataloader" where
  "DataModule_train_dataloader self =
     DataLoader dataset_len (train_dataset self) (batch_size self) True 0"

definition DataModule_val_dataloader ::
  "tensor_dataset data_module \<Rightarrow> py_error + tensor_dataset dataloader" where
  "DataModule_val_dataloader self =
     DataLoader dataset_len (val_dataset self) (batch_size self) False 0"

text \<open>
  The loaders of the native training cell, built from \<open>x\<close> and \<open>y\<close> with batch
  size 16.
\<close>

definition native_train_dataloader :: "tensor \<Rightarrow> tensor \<Rightarrow> py_error + tensor_dataset dataloader" where
  "native_train_dataloader x y =
     (case TensorDataset x y of Inl e \<Rightarrow> Inl e | Inr ds \<Rightarrow> DataLoader dataset_len ds 16 True 0)"

definition native_val_dataloader :: "tensor \<Rightarrow> tensor \<Rightarrow> py_error + tensor_dataset dataloader" where
  "native_val_dataloader x y =
     (case TensorDataset x y of Inl e \<Rightarrow> Inl e | Inr ds \<Rightarrow> DataLoader dataset_len ds 16 False 0)"

text \<open>
  \<open>DataModuleCIFAR10\<close>. \<open>torchvision.datasets.CIFAR10\<close> is library code: a dataset
  is the record of its arguments, and building it fails when the files are
  neither present nor downloadable (\<open>available\<close>).
\<close>

datatype transform_step = ToTensor | Normalize "real list" "real list"

definition DATAPATH :: string where
  "DATAPATH = ''./data''"

definition transform :: "transform_step list" where
  "transform = [ToTensor, Normalize [1 / 2, 1 / 2, 1 / 2] [1 / 2, 1 / 2, 1 / 2]]"

record cifar10 =
  cifar_root :: string
  cifar_train :: bool
  cifar_download :: bool
  cifar_transform :: "transform_step list"

definition CIFAR10 ::
  "bool \<Rightarrow> string \<Rightarrow> bool \<Rightarrow> bool \<Rightarrow> transform_step list \<Rightarrow> py_error + cifar10" where
  "CIFAR10 available r tr dl tf =
     (if available
      then Inr \<lparr>cifar_root = r, cifar_train = tr, cifar_download = dl, cifar_transform = tf\<rparr>
      else Inl RuntimeError)"

definition DataModuleCIFAR10_init :: "bool \<Rightarrow> int \<Rightarrow> py_error + cifar10 data_module" where
  "DataModuleCIFAR10_init available bs =
     (case CIFAR10 available DATAPATH True True transform of
        Inl e \<Rightarrow> Inl e
      | Inr tr \<Rightarrow>
          (case CIFAR10 available DATAPATH False True transform of
             Inl e \<Rightarrow> Inl e
           | Inr va \<Rightarrow> Inr \<lparr>train_dataset = tr, val_dataset = va, batch_size = bs\<rparr>))"

text \<open>
  \<open>len\<close> of a CIFAR10 data set: 50,000 training images and 10,000 test images, as
  the notebook notes.
\<close>

definition cifar10_len :: "cifar10 \<Rightarrow> py_error + nat" where
  "cifar10_len ds = Inr (if cifar_train ds then 50000 else 10000)"

definition DataModuleCIFAR10_train_dataloader ::
  "cifar10 data_module \<Rightarrow> py_error + cifar10 dataloader" where
  "DataModuleCIFAR10_train_dataloader self =
     DataLoader cifar10_len (train_dataset self) (batch_size self) True 4"

definition DataModuleCIFAR10_val_dataloader ::
  "cifar10 data_module \<Rightarrow> py_error + cifar10 dataloader" where
  "DataModuleCIFAR10_val_dataloader self =
     DataLoader cifar10_len (val_dataset self) (batch_size self) False 4"

section \<open>Slack configuration (02_resnet.ipynb)\<close>

text \<open>
  \<open>os.environ\<close> is a dictionary from names to strings. The first cell stores the
  empty string under three names.
\<close>

type_synonym environ = "string \<rightharpoonup> string"

definition set_slack_environment :: "environ \<Rightarrow> environ" where
  "set_slack_environment env =
     env(''SLACK_APP_TOKEN'' \<mapsto> [],
         ''SLACK_BOT_TOKEN'' \<mapsto> [],
         ''SLACK_DEFAULT_CHANNEL_ID'' \<mapsto> [])"

record slack_client =
  app_token :: string
  bot_token :: string
  default_channel_id :: string

definition environ_get :: "environ \<Rightarrow> string \<Rightarrow> py_error + string" where
  "environ_get env name = (case env name of Some v \<Rightarrow> Inr v | None \<Rightarrow> Inl KeyError)"

text \<open>
  Modelled from the spec: \<open>demo.slack.client.SlackClient\<close> is not among the
  sources. The spec gives it as a client configured from three environment
  variables (application token, bot token, default channel identifier) with no
  validation. The constructor reads the three names and stores what it finds; a
  name that is not set at all is a \<open>KeyError\<close>, as \<open>os.environ[name]\<close> gives.
\<close>

definition SlackClient_init :: "environ \<Rightarrow> py_error + slack_client" where
  "SlackClient_init env =
     (case environ_get env ''SLACK_APP_TOKEN'' of
        Inl e \<Rightarrow> Inl e
      | Inr a \<Rightarrow>
          (case environ_get env ''SLACK_BOT_TOKEN'' of
             Inl e \<Rightarrow> Inl e
           | Inr b \<Rightarrow>
               (case environ_get env ''SLACK_DEFAULT_CHANNEL_ID'' of
                  Inl e \<Rightarrow> Inl e
                | Inr c \<Rightarrow> Inr \<lparr>app_token = a, bot_token = b, default_channel_id = c\<rparr>)))"

section \<open>Callbacks and trainers (02_resnet.ipynb)\<close>

text \<open>
  A callback is the constructor call of the notebook with the keyword arguments
  it passes; \<open>dirpath\<close> and \<open>filename\<close> are optional in the library.
\<close>

datatype callback =
    is_EarlyStopping: EarlyStopping
      (monitor: string) (mode: string) (patience: int) (verbose: bool)
  | is_ModelCheckpoint: ModelCheckpoint
      (dirpath: "string option") (filename: "string option")
      (monitor: string) (save_top_k: int) (mode: string) (verbose: bool)
  | is_MonitorTrainingOnSlack: MonitorTrainingOnSlack
      (client: slack_client) (log_every_n_epoch: nat)

record trainer =
  max_epochs :: nat
  log_every_n_steps :: nat
  check_val_every_n_epoch :: nat
  callbacks :: "callback list"

definition builtin_callbacks :: "callback list" where
  "builtin_callbacks =
     [EarlyStopping ''val_loss'' ''min'' 1 True,
      ModelCheckpoint (Some ''./models'') (Some ''resnet18_cifar10_best_{epoch:02d}'')
        ''val_loss'' 1 ''min'' True]"

definition slack_callbacks :: "slack_client \<Rightarrow> callback list" where
  "slack_callbacks c = [MonitorTrainingOnSlack c 1]"

text \<open>
  The trainers the notebooks build: the regression demo, the plain ResNet runs
  (also used by each of the \<open>n_samples\<close> search runs), the run with the built-in
  callbacks and the run with the Slack callback.
\<close>

definition trainer_regression :: trainer where
  "trainer_regression =
     \<lparr>max_epochs = 5, log_every_n_steps = 1, check_val_every_n_epoch = 1, callbacks = []\<rparr>"

definition trainer_resnet :: trainer where
  "trainer_resnet =
     \<lparr>max_epochs = 10, log_every_n_steps = 1, check_val_every_n_epoch = 1, callbacks = []\<rparr>"

definition trainer_builtin :: trainer where
  "trainer_builtin =
     \<lparr>max_epochs = 10, log_every_n_steps = 1, check_val_every_n_epoch = 1,
      callbacks = builtin_callbacks\<rparr>"

definition trainer_slack :: "slack_client \<Rightarrow> trainer" where
  "trainer_slack c =
     \<lparr>max_epochs = 50, log_every_n_steps = 1, check_val_every_n_epoch = 1,
      callbacks = slack_callbacks c\<rparr>"

definition notebook_trainers :: "slack_client \<Rightarrow> trainer list" where
  "notebook_trainers c = [trainer_regression, trainer_resnet, trainer_builtin, trainer_slack c]"

text \<open>
  The library names a checkpoint file \<open>{epoch}-{step}\<close> when no \<open>filename\<close> is
  passed; otherwise it expands the template it is given.
\<close>

definition library_checkpoint_filename :: string where
  "library_checkpoint_filename = ''{epoch}-{step}''"

definition checkpoint_pattern :: "callback \<Rightarrow> string" where
  "checkpoint_pattern cb =
     (case filename cb of None \<Rightarrow> library_checkpoint_filename | Some f \<Rightarrow> f)"

text \<open>
  A logged metric is a float: a finite one is the real number it denotes, and
  comparing two finite floats is comparing these numbers; infinities and NaN
  are not finite.
\<close>

datatype metric = Finite real | NonFinite

text \<open>
  What a run observes from outside: the metrics logged by the end of each epoch,
  by name, the status text of each epoch, and whether a stop instruction is
  waiting on the channel when it is polled after that epoch.
\<close>

record world =
  logged :: "nat \<Rightarrow> string \<Rightarrow> metric option"
  status :: "nat \<Rightarrow> string"
  stop_instruction :: "nat \<Rightarrow> bool"

datatype ext_call = SendMessage string string | PollStop string

text \<open>
  Modelled from the spec: \<open>demo.lightning.callbacks.slack.MonitorTrainingOnSlack\<close>
  is not among the sources. The spec gives it as a callback that, on a fixed epoch
  cadence, sends a formatted status string to the messaging service and polls the
  channel for a stop instruction, requesting termination when one is there, with
  no retry and no state. The cadence is read as \<open>epoch % log_every_n_epoch == 0\<close>,
  which raises for a cadence of zero as Python's \<open>%\<close> does.
\<close>

definition MonitorTrainingOnSlack_on_train_epoch_end ::
  "slack_client \<Rightarrow> nat \<Rightarrow> world \<Rightarrow> nat \<Rightarrow> py_error + (ext_call list \<times> bool)" where
  "MonitorTrainingOnSlack_on_train_epoch_end c n w epoch =
     (if n = 0 then Inl ZeroDivisionError
      else if epoch mod n = 0
      then Inr ([SendMessage (default_channel_id c) (status w epoch),
                 PollStop (default_channel_id c)],
                stop_instruction w epoch)
      else Inr ([], False))"

text \<open>
  The library's early stopping with the arguments the notebook leaves at their
  defaults (\<open>min_delta = 0\<close>, \<open>check_finite\<close>, \<open>strict\<close>, no thresholds). Its state
  is the best score so far (\<open>None\<close> before the first check, where the library
  holds the infinity every finite score improves on) and the number of checks
  without improvement. A monitored value that is not finite asks to stop at
  once; an improvement resets the count; otherwise the count grows and the
  callback asks to stop once it reaches \<open>patience\<close>. A callback value stands for a
  callback the library has built, so its mode is \<open>min\<close> or \<open>max\<close>.
\<close>

record es_state =
  best_score :: "real option"
  wait_count :: int

definition es_initial :: es_state where
  "es_initial = \<lparr>best_score = None, wait_count = 0\<rparr>"

definition EarlyStopping_check :: "string \<Rightarrow> int \<Rightarrow> metric \<Rightarrow> es_state \<Rightarrow> es_state \<times> bool" where
  "EarlyStopping_check mo p current st =
     (case current of
        NonFinite \<Rightarrow> (st, True)
      | Finite c \<Rightarrow>
          if (case best_score st of
                None \<Rightarrow> True
              | Some b \<Rightarrow> if mo = ''min'' then c < b else b < c)
          then (\<lparr>best_score = Some c, wait_count = 0\<rparr>, False)
          else (st\<lparr>wait_count := wait_count st + 1\<rparr>, p \<le> wait_count st + 1))"

text \<open>
  One callback at the end of one epoch: its new state, whether it asks the
  trainer to stop, and the external calls it made. Early stopping raises a
  \<open>RuntimeError\<close> when its monitored metric was not logged; the checkpoint
  callback never asks to stop, and unless \<open>save_top_k\<close> is 0 it raises when its
  monitored metric was not logged.
\<close>

fun on_epoch_end ::
  "world \<Rightarrow> nat \<Rightarrow> callback \<Rightarrow> es_state \<Rightarrow> py_error + (es_state \<times> bool \<times> ext_call list)" where
  "on_epoch_end w epoch (EarlyStopping mon mo p v) st =
     (case logged w epoch mon of
        None \<Rightarrow> Inl RuntimeError
      | Some current \<Rightarrow>
          (case EarlyStopping_check mo p current st of (st', stop) \<Rightarrow> Inr (st', stop, [])))"
| "on_epoch_end w epoch (ModelCheckpoint d f mon k mo v) st =
     (if k \<noteq> 0 \<and> logged w epoch mon = None then Inl MisconfigurationException
      else Inr (st, False, []))"
| "on_epoch_end w epoch (MonitorTrainingOnSlack c n) st =
     (case MonitorTrainingOnSlack_on_train_epoch_end c n w epoch of
        Inl e \<Rightarrow> Inl e
      | Inr (calls, stop) \<Rightarrow> Inr (st, stop, calls))"

fun run_callbacks ::
  "world \<Rightarrow> nat \<Rightarrow> (callback \<times> es_state) list
   \<Rightarrow> py_error + ((callback \<times> es_state) list \<times> bool \<times> ext_call list)" where
  "run_callbacks w epoch [] = Inr ([], False, [])"
| "run_callbacks w epoch ((cb, st) # rest) =
     (case on_epoch_end w epoch cb st of
        Inl e \<Rightarrow> Inl e
      | Inr (st', stop, calls) \<Rightarrow>
          (case run_callbacks w epoch rest of
             Inl e \<Rightarrow> Inl e
           | Inr (rest', stop', calls') \<Rightarrow>
               Inr ((cb, st') # rest', stop \<or> stop', calls @ calls')))"

text \<open>
  The trainer's epoch loop as far as stopping goes, for a trainer that validates
  after every epoch as all the notebooks' trainers do: after each epoch every
  callback runs, and the loop ends when one of them has asked to stop or
  \<open>max_epochs\<close> epochs are done. The trainer runs the checkpoint callbacks after
  the others. The result is the number of epochs run and the external calls
  made.
\<close>

fun fit_loop ::
  "world \<Rightarrow> nat \<Rightarrow> nat \<Rightarrow> (callback \<times> es_state) list \<Rightarrow> ext_call list
   \<Rightarrow> py_error + (nat \<times> ext_call list)" where
  "fit_loop w 0 epoch cbs tr = Inr (epoch, tr)"
| "fit_loop w (Suc k) epoch cbs tr =
     (case run_callbacks w epoch cbs of
        Inl e \<Rightarrow> Inl e
      | Inr (cbs', stop, calls) \<Rightarrow>
          if stop then Inr (Suc epoch, tr @ calls)
          else fit_loop w k (Suc epoch) cbs' (tr @ calls))"

definition reorder_callbacks :: "callback list \<Rightarrow> callback list" where
  "reorder_callbacks cbs =
     filter (\<lambda>cb. \<not> is_ModelCheckpoint cb) cbs @ filter is_ModelCheckpoint cbs"

definition fit :: "trainer \<Rightarrow> world \<Rightarrow> py_error + (nat \<times> ext_call list)" where
  "fit t w =
     fit_loop w (max_epochs t) 0
       (map (\<lambda>cb. (cb, es_initial)) (reorder_callbacks (callbacks t))) []"

section \<open>Sample inputs\<close>

text \<open>
  A small regression data set: three rows of one feature, with targets; and
  targets of two rows only.
\<close>

definition x3 :: tensor where
  "x3 = \<lparr>shape = [3, 1], data = [0, 1 / 2, 1]\<rparr>"

definition y3 :: tensor where
  "y3 = \<lparr>shape = [3, 1], data = [1, 2, 3]\<rparr>"

definition y2 :: tensor where
  "y2 = \<lparr>shape = [2, 1], data = [1, 2]\<rparr>"

definition dm3 :: "tensor_dataset data_module" where
  "dm3 = \<lparr>train_dataset = \<lparr>tensors = [x3, y3]\<rparr>, val_dataset = \<lparr>tensors = [x3, y3]\<rparr>,
          batch_size = 2\<rparr>"

text \<open>
  The client built from the empty tokens of the first cell, a client with tokens
  filled in, and two worlds: one with a stop instruction waiting, one with a
  validation loss that never improves.
\<close>

definition client0 :: slack_client where
  "client0 = \<lparr>app_token = [], bot_token = [], default_channel_id = []\<rparr>"

definition client1 :: slack_client where
  "client1 = \<lparr>app_token = ''xapp-1'', bot_token = ''xoxb-1'', default_channel_id = ''C01''\<rparr>"

definition world_stop :: world where
  "world_stop = \<lparr>logged = (\<lambda>_. [''val_loss'' \<mapsto> Finite 0]), status = (\<lambda>_. ''status''),
                 stop_instruction = (\<lambda>_. True)\<rparr>"

definition world_flat :: world where
  "world_flat = \<lparr>logged = (\<lambda>_. [''val_loss'' \<mapsto> Finite 1]), status = (\<lambda>_. ''status''),
                 stop_instruction = (\<lambda>_. False)\<rparr>"

text \<open>
  The external calls expected of the Slack callback after one epoch: one message
  and one poll on the cadence, nothing off it.
\<close>

definition slack_calls :: "slack_client \<Rightarrow> nat \<Rightarrow> world \<Rightarrow> nat \<Rightarrow> ext_call list" where
  "slack_calls c n w epoch =
     (if epoch mod n = 0
      then [SendMessage (default_channel_id c) (status w epoch), PollStop (default_channel_id c)]
      else [])"

section \<open>The hyperparameter sampler\<close>

text \<open>
  The two loops unfold over the four entries of \<open>search_space\<close>: the call never
  raises, consumes four samples and stores one leaf per entry.
\<close>

lemma generate_hyperparameters_unfold:
  "generate_hyperparameters u pos = Inr
     ([''optimizer'' \<mapsto> [''lr'' \<mapsto> 1 / 10 ^ 7 + (1 / 10 ^ 5 - 1 / 10 ^ 7) * u pos,
                          ''weight_decay'' \<mapsto> 1 / 100 + (1 / 10 - 1 / 100) * u (Suc pos)],
       ''scheduler'' \<mapsto> [''step_size'' \<mapsto> 5 + (10 - 5) * u (Suc (Suc pos)),
                          ''gamma'' \<mapsto> 1 / 10 + (1 / 2 - 1 / 10) * u (Suc (Suc (Suc pos)))]],
      pos + 4)"
  by (simp add: generate_hyperparameters_def search_space_def py_index_def uniform_def)

lemma unit_affine:
  fixes low high t :: real
  assumes "low \<le> high" "0 \<le> t" "t < 1"
  shows "low \<le> low + (high - low) * t \<and> low + (high - low) * t \<le> high"
proof
  from assms show "low \<le> low + (high - low) * t" by simp
  have "(high - low) * t \<le> (high - low) * 1"
    using assms by (intro mult_left_mono) auto
  then show "low + (high - low) * t \<le> high" by simp
qed

text \<open>
  C1. Every call of \<open>generate_hyperparameters\<close> returns a dictionary with exactly
  the keys \<open>optimizer\<close> and \<open>scheduler\<close> of \<open>search_space\<close>, each holding exactly the
  sub-keys of its entry (\<open>lr\<close>, \<open>weight_decay\<close> and \<open>step_size\<close>, \<open>gamma\<close>). Every
  leaf is one draw of the library's uniform sampler on the \<open>[low, high]\<close> of its
  entry, each on a fresh sample of the generator and on nothing else, and lies
  within that range. The generator's unit samples lie in \<open>[0, 1)\<close>.
\<close>

theorem generate_hyperparameters_in_search_space:
  assumes unit: "\<forall>i. 0 \<le> u i \<and> u i < 1"
  shows "\<exists>h. generate_hyperparameters u pos = Inr (h, pos + 4)
     \<and> dom h = {''optimizer'', ''scheduler''}
     \<and> dom h = fst ` set search_space
     \<and> (\<forall>(key, value) \<in> set search_space. \<exists>d. h key = Some d \<and> dom d = fst ` set value
          \<and> (\<forall>(subkey, subvalue) \<in> set value.
                \<exists>v. d subkey = Some v \<and> subvalue ! 0 \<le> v \<and> v \<le> subvalue ! 1))
     \<and> (\<exists>opt. h ''optimizer'' = Some opt \<and> dom opt = {''lr'', ''weight_decay''})
     \<and> (\<exists>sch. h ''scheduler'' = Some sch \<and> dom sch = {''step_size'', ''gamma''})
     \<and> leaf h ''optimizer'' ''lr'' = Some (fst (uniform u (1 / 10 ^ 7) (1 / 10 ^ 5) pos))
     \<and> leaf h ''optimizer'' ''weight_decay'' = Some (fst (uniform u (1 / 100) (1 / 10) (pos + 1)))
     \<and> leaf h ''scheduler'' ''step_size'' = Some (fst (uniform u 5 10 (pos + 2)))
     \<and> leaf h ''scheduler'' ''gamma'' = Some (fst (uniform u (1 / 10) (1 / 2) (pos + 3)))"
proof -
  have a: "1 / 10 ^ 7 \<le> 1 / 10 ^ 7 + (1 / 10 ^ 5 - 1 / 10 ^ 7) * u pos
      \<and> 1 / 10 ^ 7 + (1 / 10 ^ 5 - 1 / 10 ^ 7) * u pos \<le> 1 / 10 ^ 5"
    using unit by (intro unit_affine) auto
  have b: "1 / 100 \<le> 1 / 100 + (1 / 10 - 1 / 100) * u (Suc pos)
      \<and> 1 / 100 + (1 / 10 - 1 / 100) * u (Suc pos) \<le> 1 / 10"
    using unit by (intro unit_affine) auto
  have c: "5 \<le> 5 + (10 - 5) * u (Suc (Suc pos)) \<and> 5 + (10 - 5) * u (Suc (Suc pos)) \<le> 10"
    using unit by (intro unit_affine) auto
  have d: "1 / 10 \<le> 1 / 10 + (1 / 2 - 1 / 10) * u (Suc (Suc (Suc pos)))
      \<and> 1 / 10 + (1 / 2 - 1 / 10) * u (Suc (Suc (Suc pos))) \<le> 1 / 2"
    using unit by (intro unit_affine) auto
  have s2: "pos + 2 = Suc (Suc pos)" and s3: "pos + 3 = Suc (Suc (Suc pos))" by simp_all
  show ?thesis
    unfolding generate_hyperparameters_unfold
    apply (rule exI, rule conjI, rule refl)
    using a b c d
    apply (simp add: search_space_def leaf_def uniform_def s2 s3 del: fun_upd_apply)
    apply auto
    done
qed

theorem generate_hyperparameters_in_search_space_witness:
  "(\<forall>i::nat. (0::real) \<le> 1 / 2 \<and> (1 / 2 :: real) < 1)
   \<and> (\<exists>h. generate_hyperparameters (\<lambda>_. 1 / 2) 0 = Inr (h, 4)
        \<and> dom h = {''optimizer'', ''scheduler''}
        \<and> leaf h ''scheduler'' ''step_size'' = Some (15 / 2))"
  using generate_hyperparameters_in_search_space [of "\<lambda>_. 1 / 2" 0]
  by (auto simp add: uniform_def)

section \<open>The regression data\<close>

lemma linspace_500:
  "linspace 0 1 500 = Inr \<lparr>shape = [500], data = map (\<lambda>i. real i / 499) [0..<500]\<rparr>"
  by (simp add: linspace_def)

lemma view_column:
  "view \<lparr>shape = [n], data = xs\<rparr> [- 1, 1] = Inr \<lparr>shape = [n, 1], data = xs\<rparr>"
  by (simp add: view_def numel_def)

lemma regression_data_unfold:
  "regression_data z pos =
     Inr (\<lparr>shape = [500, 1], data = map (\<lambda>i. real i / 499) [0..<500]\<rparr>,
          \<lparr>shape = [500, 1],
           data = map (\<lambda>(v, w). v + w)
                    (zip (map (\<lambda>i. real i / 499) [0..<500])
                         (map (\<lambda>v. 2 / 10 * v) (map z [pos..<pos + 500])))\<rparr>,
          pos + 500)"
  by (simp add: regression_data_def linspace_500 view_column randn_like_def numel_def
      scalar_mul_def tensor_add_def)

text \<open>
  C8. The regression data is a pair of arrays: the inputs are 500 evenly spaced
  values from 0 to 1 (the \<open>i\<close>-th is \<open>i / 499\<close>) as 500 rows of one feature, and
  the targets have the same shape and are the inputs plus the noise term
  \<open>0.2 * z\<close>, element by element. The construction never raises.
\<close>

theorem regression_data_shapes:
  "\<exists>x y. regression_data z pos = Inr (x, y, pos + 500)
     \<and> shape x = [500, 1] \<and> shape y = shape x
     \<and> length (data x) = 500 \<and> length (data y) = 500
     \<and> data x ! 0 = 0 \<and> data x ! 499 = 1
     \<and> (\<forall>i < 500. data x ! i = real i / 499)
     \<and> (\<forall>i < 499. data x ! Suc i - data x ! i = 1 / 499)
     \<and> (\<forall>i < 500. data y ! i = data x ! i + 2 / 10 * z (pos + i))"
  unfolding regression_data_unfold
  apply (intro exI conjI)
  apply (rule refl)
  apply (simp_all add: field_simps)
  done

theorem regression_data_shapes_witness:
  "\<exists>x y. regression_data (\<lambda>i. real i) 0 = Inr (x, y, 500)
     \<and> shape y = [500, 1] \<and> data x ! 250 = 250 / 499 \<and> data y ! 250 = 250 / 499 + 50"
  using regression_data_shapes [of "\<lambda>i. real i" 0]
  by force

section \<open>Training and validation data of the regression demo\<close>

lemma concat_chunks: "0 < n \<Longrightarrow> concat (chunks n xs) = xs"
proof (induction n xs rule: chunks.induct)
  case (1 n xs)
  show ?case
  proof (cases "xs = []")
    case True
    then show ?thesis by (simp add: chunks.simps)
  next
    case False
    with 1 have "concat (chunks n (drop n xs)) = drop n xs" by simp
    with False 1 show ?thesis by (subst chunks.simps) simp
  qed
qed

lemma set_served:
  "0 < n \<Longrightarrow> set (concat (map (map f) (chunks n idx))) = f ` set idx"
proof -
  assume n: "0 < n"
  have "concat (map (map f) (chunks n idx)) = map f (concat (chunks n idx))"
    by (simp add: map_concat)
  then show ?thesis using n by (simp add: concat_chunks)
qed

lemma TensorDataset_Inr:
  "TensorDataset x y = Inr ds \<Longrightarrow>
     ds = \<lparr>tensors = [x, y]\<rparr> \<and> (\<exists>n. size0 x = Inr n \<and> size0 y = Inr n)"
  by (auto simp: TensorDataset_def split: sum.splits if_splits)

lemma DataModule_init_Inr:
  assumes "DataModule_init x y bs = Inr dm"
  shows "dm = \<lparr>train_dataset = \<lparr>tensors = [x, y]\<rparr>, val_dataset = \<lparr>tensors = [x, y]\<rparr>,
               batch_size = bs\<rparr>
         \<and> TensorDataset x y = Inr \<lparr>tensors = [x, y]\<rparr> \<and> (\<exists>n. size0 x = Inr n)"
  using assms by (auto simp: DataModule_init_def split: sum.splits dest: TensorDataset_Inr)

lemma DataLoader_Inr:
  assumes "0 < bs" and "sh \<longrightarrow> (\<exists>n. len ds = Inr n \<and> 0 < n)"
  shows "DataLoader len ds bs sh nw =
           Inr \<lparr>loader_dataset = ds, loader_batch_size = bs, loader_shuffle = sh,
                loader_num_workers = nw, loader_sampler = None,
                loader_batch_sampler = None, loader_collate_fn = None\<rparr>"
proof (cases sh)
  case True
  with assms(2) obtain n where "len ds = Inr n" "0 < n" by (elim impE exE conjE) simp_all
  with True assms(1) show ?thesis by (simp add: DataLoader_def RandomSampler_check_def)
next
  case False
  with assms(1) show ?thesis by (simp add: DataLoader_def)
qed

lemma loader_batches_Inr:
  assumes bs: "0 < bs" and len: "dataset_len ds = Inr n" and n: "0 < n"
  shows "loader_batches \<lparr>loader_dataset = ds, loader_batch_size = bs, loader_shuffle = sh,
                          loader_num_workers = nw, loader_sampler = None,
                          loader_batch_sampler = None, loader_collate_fn = None\<rparr> perm
           = Inr (map (map (getitem ds)) (chunks (nat bs) (if sh then perm else [0..<n])))"
proof -
  have "sh \<longrightarrow> (\<exists>n. dataset_len ds = Inr n \<and> 0 < n)" using len n by simp
  then have "DataLoader dataset_len ds bs sh nw =
           Inr \<lparr>loader_dataset = ds, loader_batch_size = bs, loader_shuffle = sh,
                loader_num_workers = nw, loader_sampler = None,
                loader_batch_sampler = None, loader_collate_fn = None\<rparr>"
    using bs by (rule DataLoader_Inr [rotated])
  then show ?thesis
    by (simp add: loader_batches_def len)
qed

text \<open>
  C9. In the regression demo the validation data is the training data: the
  data module's \<open>val_dataset\<close> and \<open>train_dataset\<close> are the same dataset over
  \<open>(x, y)\<close>, as are the datasets of the two native loaders. For a non-empty
  data set and a positive batch size all four loaders are built, and whatever
  permutation a training loader shuffles with, every sample the validation
  loader serves is served by the training loader too.
\<close>

theorem validation_data_is_training_data:
  assumes init: "DataModule_init x y bs = Inr dm"
    and len: "dataset_len (val_dataset dm) = Inr n"
    and n: "0 < n"
    and bs: "0 < bs"
    and perm: "set perm = {0..<n}"
  shows "val_dataset dm = train_dataset dm
     \<and> tensors (val_dataset dm) = [x, y]
     \<and> (\<exists>tl vl. DataModule_train_dataloader dm = Inr tl \<and> DataModule_val_dataloader dm = Inr vl
          \<and> loader_dataset vl = loader_dataset tl \<and> loader_dataset vl = val_dataset dm
          \<and> (\<exists>tb vb. loader_batches tl perm = Inr tb \<and> loader_batches vl perm = Inr vb
                \<and> set (concat vb) = getitem (val_dataset dm) ` {0..<n}
                \<and> set (concat vb) \<subseteq> set (concat tb)))
     \<and> (\<exists>tl vl. native_train_dataloader x y = Inr tl \<and> native_val_dataloader x y = Inr vl
          \<and> loader_dataset vl = loader_dataset tl \<and> loader_dataset vl = val_dataset dm
          \<and> (\<exists>tb vb. loader_batches tl perm = Inr tb \<and> loader_batches vl perm = Inr vb
                \<and> set (concat vb) = getitem (val_dataset dm) ` {0..<n}
                \<and> set (concat vb) \<subseteq> set (concat tb)))"
proof -
  let ?ds = "\<lparr>tensors = [x, y]\<rparr>"
  let ?dl = "\<lambda>b sh. \<lparr>loader_dataset = ?ds, loader_batch_size = b, loader_shuffle = sh,
                loader_num_workers = 0, loader_sampler = None,
                loader_batch_sampler = None, loader_collate_fn = None\<rparr>"
  from DataModule_init_Inr [OF init] have
    dm: "dm = \<lparr>train_dataset = ?ds, val_dataset = ?ds, batch_size = bs\<rparr>"
    and td: "TensorDataset x y = Inr ?ds"
    by simp_all
  have vd: "val_dataset dm = ?ds" by (simp add: dm)
  from len have dl: "dataset_len ?ds = Inr n" by (simp add: vd)
  have nonempty: "sh \<longrightarrow> (\<exists>n. dataset_len ?ds = Inr n \<and> 0 < n)" for sh
    using dl n by simp
  have served: "\<exists>tb vb. loader_batches (?dl b True) perm = Inr tb
        \<and> loader_batches (?dl b False) perm = Inr vb
        \<and> set (concat vb) = getitem (val_dataset dm) ` {0..<n}
        \<and> set (concat vb) \<subseteq> set (concat tb)" if b: "0 < b" for b
  proof -
    from b have pos: "0 < nat b" by simp
    have tb: "loader_batches (?dl b True) perm
                = Inr (map (map (getitem ?ds)) (chunks (nat b) perm))"
      using loader_batches_Inr [OF b dl n, of True 0 perm] by simp
    have vb: "loader_batches (?dl b False) perm
                = Inr (map (map (getitem ?ds)) (chunks (nat b) [0..<n]))"
      using loader_batches_Inr [OF b dl n, of False 0 perm] by simp
    have sv: "set (concat (map (map (getitem ?ds)) (chunks (nat b) [0..<n])))
                = getitem ?ds ` {0..<n}"
      using set_served [OF pos, of "getitem ?ds" "[0..<n]"] by simp
    have st: "set (concat (map (map (getitem ?ds)) (chunks (nat b) perm)))
                = getitem ?ds ` {0..<n}"
      using set_served [OF pos, of "getitem ?ds" perm] perm by simp
    show ?thesis
      unfolding tb vb vd using sv st by simp
  qed
  have same: "val_dataset dm = train_dataset dm" "tensors (val_dataset dm) = [x, y]"
    by (simp_all add: dm)
  have mt: "DataModule_train_dataloader dm = Inr (?dl bs True)"
    using DataLoader_Inr [of bs True dataset_len ?ds 0] bs nonempty [of True]
    by (simp add: DataModule_train_dataloader_def dm)
  have mv: "DataModule_val_dataloader dm = Inr (?dl bs False)"
    using DataLoader_Inr [of bs False dataset_len ?ds 0] bs
    by (simp add: DataModule_val_dataloader_def dm)
  have sixteen: "(0::int) < 16" by simp
  have nt: "native_train_dataloader x y = Inr (?dl 16 True)"
    using DataLoader_Inr [of 16 True dataset_len ?ds 0] nonempty [of True]
    by (simp add: native_train_dataloader_def td)
  have nv: "native_val_dataloader x y = Inr (?dl 16 False)"
    using DataLoader_Inr [of 16 False dataset_len ?ds 0]
    by (simp add: native_val_dataloader_def td)
  have module: "\<exists>tl vl. DataModule_train_dataloader dm = Inr tl \<and> DataModule_val_dataloader dm = Inr vl
          \<and> loader_dataset vl = loader_dataset tl \<and> loader_dataset vl = val_dataset dm
          \<and> (\<exists>tb vb. loader_batches tl perm = Inr tb \<and> loader_batches vl perm = Inr vb
                \<and> set (concat vb) = getitem (val_dataset dm) ` {0..<n}
                \<and> set (concat vb) \<subseteq> set (concat tb))"
    unfolding mt mv using served [OF bs] by (simp add: vd)
  have native: "\<exists>tl vl. native_train_dataloader x y = Inr tl \<and> native_val_dataloader x y = Inr vl
          \<and> loader_dataset vl = loader_dataset tl \<and> loader_dataset vl = val_dataset dm
          \<and> (\<exists>tb vb. loader_batches tl perm = Inr tb \<and> loader_batches vl perm = Inr vb
                \<and> set (concat vb) = getitem (val_dataset dm) ` {0..<n}
                \<and> set (concat vb) \<subseteq> set (concat tb))"
    unfolding nt nv using served [OF sixteen] by (simp add: vd)
  from same module native show ?thesis by (intro conjI)
qed

theorem validation_data_is_training_data_witness:
  "DataModule_init x3 y3 2 = Inr dm3
   \<and> dataset_len (val_dataset dm3) = Inr 3 \<and> (0::nat) < 3 \<and> (0::int) < 2
   \<and> set [2, 0, 1] = {0..<3::nat}
   \<and> val_dataset dm3 = train_dataset dm3
   \<and> (\<exists>tl vl. DataModule_train_dataloader dm3 = Inr tl \<and> DataModule_val_dataloader dm3 = Inr vl
        \<and> (\<exists>tb vb. loader_batches tl [2, 0, 1] = Inr tb \<and> loader_batches vl [2, 0, 1] = Inr vb
              \<and> set (concat vb) \<subseteq> set (concat tb)))"
proof -
  have i: "DataModule_init x3 y3 2 = Inr dm3"
    by (simp add: DataModule_init_def TensorDataset_def size0_def x3_def y3_def dm3_def)
  have l: "dataset_len (val_dataset dm3) = Inr 3"
    by (simp add: dataset_len_def size0_def x3_def dm3_def)
  have n: "(0::nat) < 3" by simp
  have b: "(0::int) < 2" by simp
  have p: "set [2, 0, 1] = {0..<3::nat}" by auto
  note t = validation_data_is_training_data [OF i l n b p]
  from t have s: "val_dataset dm3 = train_dataset dm3" by (elim conjE)
  from t obtain tl vl tb vb where
    "DataModule_train_dataloader dm3 = Inr tl" "DataModule_val_dataloader dm3 = Inr vl"
    "loader_batches tl [2, 0, 1] = Inr tb" "loader_batches vl [2, 0, 1] = Inr vb"
    "set (concat vb) \<subseteq> set (concat tb)"
    by (elim conjE exE)
  then have e: "\<exists>tl vl. DataModule_train_dataloader dm3 = Inr tl \<and> DataModule_val_dataloader dm3 = Inr vl
        \<and> (\<exists>tb vb. loader_batches tl [2, 0, 1] = Inr tb \<and> loader_batches vl [2, 0, 1] = Inr vb
              \<and> set (concat vb) \<subseteq> set (concat tb))"
    by (intro exI conjI)
  from i l n b p s e show ?thesis by (intro conjI)
qed

section \<open>Plotting\<close>

lemma visualize_None:
  "length (flatten x) = length (flatten y) \<Longrightarrow>
   visualize x y None =
     Inr [Subplots (6, 6),
          Scatterplot (flatten x) (flatten y) ''Observations'' None,
          Lineplot (flatten x) (flatten x) ''--'' ''red'' ''Ground truth'',
          AxSet ''X'' ''Y'' ''Simple linear regression dataset'',
          Show]"
  by (simp add: visualize_def scatterplot_def lineplot_def)

lemma visualize_Some:
  "length (flatten x) = length (flatten y) \<Longrightarrow>
   visualize x y (Some p) =
     (if length (flatten p) = length (flatten x)
      then Inr [Subplots (6, 6),
                Scatterplot (flatten x) (flatten y) ''Observations'' None,
                Lineplot (flatten x) (flatten x) ''--'' ''red'' ''Ground truth'',
                Scatterplot (flatten x) (flatten p) ''Predictions'' (Some ''green''),
                AxSet ''X'' ''Y'' ''Simple linear regression dataset'',
                Show]
      else Inl ValueError)"
  by (auto simp add: visualize_def scatterplot_def lineplot_def py_flatten_def)

lemma visualize_mismatch:
  "length (flatten x) \<noteq> length (flatten y) \<Longrightarrow> visualize x y y_pred = Inl ValueError"
  by (simp add: visualize_def scatterplot_def)

text \<open>
  C10 (as amended). For \<open>x\<close> and \<open>y\<close> with the same number of elements,
  \<open>visualize\<close> accepts \<open>y_pred = None\<close>: it then issues only the observations
  scatter and the ground-truth line (with the figure set-up around them) and
  does not fail. Whenever \<open>visualize\<close> returns, the predictions scatter has been
  issued, once, if and only if \<open>y_pred\<close> is not \<open>None\<close>; a \<open>y_pred\<close> with as many
  elements as \<open>x\<close> is plotted, one of another length is refused by the plotting
  call.
\<close>

theorem visualize_without_predictions:
  assumes len: "length (flatten x) = length (flatten y)"
  shows "visualize x y None =
     Inr [Subplots (6, 6),
          Scatterplot (flatten x) (flatten y) ''Observations'' None,
          Lineplot (flatten x) (flatten x) ''--'' ''red'' ''Ground truth'',
          AxSet ''X'' ''Y'' ''Simple linear regression dataset'',
          Show]
   \<and> (\<forall>calls. visualize x y y_pred = Inr calls \<longrightarrow>
         (list_ex is_predictions calls \<longleftrightarrow> y_pred \<noteq> None)
         \<and> length (filter is_predictions calls) = (if y_pred = None then 0 else 1))
   \<and> (\<forall>p. length (flatten p) = length (flatten x) \<longrightarrow>
         (\<exists>calls. visualize x y (Some p) = Inr calls
            \<and> Scatterplot (flatten x) (flatten p) ''Predictions'' (Some ''green'') \<in> set calls))
   \<and> (\<forall>p. length (flatten p) \<noteq> length (flatten x) \<longrightarrow>
         visualize x y (Some p) = Inl ValueError)"
proof (intro conjI allI impI)
  show "visualize x y None =
     Inr [Subplots (6, 6),
          Scatterplot (flatten x) (flatten y) ''Observations'' None,
          Lineplot (flatten x) (flatten x) ''--'' ''red'' ''Ground truth'',
          AxSet ''X'' ''Y'' ''Simple linear regression dataset'',
          Show]"
    by (rule visualize_None [OF len])
next
  fix calls assume r: "visualize x y y_pred = Inr calls"
  show "list_ex is_predictions calls \<longleftrightarrow> y_pred \<noteq> None"
  proof (cases y_pred)
    case None
    with r visualize_None [OF len] show ?thesis by (auto simp add: is_predictions_def)
  next
    case (Some p)
    with r visualize_Some [OF len, of p] show ?thesis
      by (auto simp add: is_predictions_def split: if_splits)
  qed
  show "length (filter is_predictions calls) = (if y_pred = None then 0 else 1)"
  proof (cases y_pred)
    case None
    with r visualize_None [OF len] show ?thesis by (auto simp add: is_predictions_def)
  next
    case (Some p)
    with r visualize_Some [OF len, of p] show ?thesis
      by (auto simp add: is_predictions_def split: if_splits)
  qed
next
  fix p assume "length (flatten p) = length (flatten x)"
  with visualize_Some [OF len, of p]
  show "\<exists>calls. visualize x y (Some p) = Inr calls
            \<and> Scatterplot (flatten x) (flatten p) ''Predictions'' (Some ''green'') \<in> set calls"
    by simp
next
  fix p assume "length (flatten p) \<noteq> length (flatten x)"
  with visualize_Some [OF len, of p]
  show "visualize x y (Some p) = Inl ValueError" by simp
qed

theorem visualize_without_predictions_witness:
  "length (flatten x3) = length (flatten y3)
   \<and> visualize x3 y3 None =
       Inr [Subplots (6, 6),
            Scatterplot [0, 1 / 2, 1] [1, 2, 3] ''Observations'' None,
            Lineplot [0, 1 / 2, 1] [0, 1 / 2, 1] ''--'' ''red'' ''Ground truth'',
            AxSet ''X'' ''Y'' ''Simple linear regression dataset'',
            Show]
   \<and> (\<exists>calls. visualize x3 y3 (Some y3) = Inr calls
         \<and> Scatterplot (flatten x3) (flatten y3) ''Predictions'' (Some ''green'') \<in> set calls)
   \<and> visualize x3 y3 (Some y2) = Inl ValueError"
proof -
  have l: "length (flatten x3) = length (flatten y3)"
    by (simp add: flatten_def x3_def y3_def)
  have m: "length (flatten y2) \<noteq> length (flatten x3)"
    by (simp add: flatten_def x3_def y2_def)
  have f: "flatten x3 = [0, 1 / 2, 1]" "flatten y3 = [1, 2, 3]"
    by (simp_all add: flatten_def x3_def y3_def)
  note t = visualize_without_predictions [OF l, of None]
  from t have a: "visualize x3 y3 None =
       Inr [Subplots (6, 6),
            Scatterplot [0, 1 / 2, 1] [1, 2, 3] ''Observations'' None,
            Lineplot [0, 1 / 2, 1] [0, 1 / 2, 1] ''--'' ''red'' ''Ground truth'',
            AxSet ''X'' ''Y'' ''Simple linear regression dataset'',
            Show]"
    unfolding f by (elim conjE)
  from t l have b: "\<exists>calls. visualize x3 y3 (Some y3) = Inr calls
         \<and> Scatterplot (flatten x3) (flatten y3) ''Predictions'' (Some ''green'') \<in> set calls"
    by simp
  from t m have c: "visualize x3 y3 (Some y2) = Inl ValueError" by simp
  from l a b c show ?thesis by (intro conjI)
qed

text \<open>
  C10 as stated fails where \<open>x\<close> and \<open>y\<close> differ in length: with three inputs,
  two targets and \<open>y_pred = None\<close> the first scatter plot raises, before the
  test of \<open>y_pred\<close> is reached.
\<close>

theorem visualize_never_fails_counterexample:
  "visualize x3 y2 None = Inl ValueError"
  by (simp add: visualize_def scatterplot_def flatten_def x3_def y2_def)

section \<open>The data-module wrappers\<close>

lemma CIFAR_init_Inr:
  "DataModuleCIFAR10_init av bs = Inr dm \<Longrightarrow>
     dm = \<lparr>train_dataset = \<lparr>cifar_root = DATAPATH, cifar_train = True, cifar_download = True,
                             cifar_transform = transform\<rparr>,
           val_dataset = \<lparr>cifar_root = DATAPATH, cifar_train = False, cifar_download = True,
                           cifar_transform = transform\<rparr>,
           batch_size = bs\<rparr>"
  by (auto simp: DataModuleCIFAR10_init_def CIFAR10_def split: if_splits)

text \<open>
  C4 (as amended). Both data-module classes, \<open>DataModule\<close> and
  \<open>DataModuleCIFAR10\<close>, define exactly two of the library's loader hooks,
  \<open>train_dataloader\<close> and \<open>val_dataloader\<close>. For a positive stored batch size (and
  a non-empty data set) each call of either returns the library's \<open>DataLoader\<close>
  over the dataset stored by \<open>__init__\<close> with the batch size stored by
  \<open>__init__\<close>, shuffled for training only; the wrapper passes no sampler, batch
  sampler or collate function of its own, and the CIFAR10 datasets carry only
  the notebook's \<open>ToTensor\<close> and \<open>Normalize\<close> steps. For a stored batch size that is
  not positive the library's constructor raises inside the accessor.
\<close>

theorem data_module_dataloaders:
  assumes reg: "DataModule_init x y bs = Inr dm"
    and len: "dataset_len (train_dataset dm) = Inr n"
    and n: "0 < n"
    and bs: "0 < bs"
    and cif: "DataModuleCIFAR10_init available bs' = Inr cdm"
    and bs': "0 < bs'"
  shows "(\<exists>tl vl. DataModule_train_dataloader dm = Inr tl \<and> DataModule_val_dataloader dm = Inr vl
           \<and> loader_dataset tl = train_dataset dm \<and> train_dataset dm = \<lparr>tensors = [x, y]\<rparr>
           \<and> loader_dataset vl = val_dataset dm \<and> val_dataset dm = \<lparr>tensors = [x, y]\<rparr>
           \<and> loader_batch_size tl = bs \<and> loader_batch_size vl = bs
           \<and> loader_shuffle tl \<and> \<not> loader_shuffle vl
           \<and> (\<forall>dl \<in> {tl, vl}. loader_sampler dl = None \<and> loader_batch_sampler dl = None
                 \<and> loader_collate_fn dl = None))
     \<and> (\<exists>tl vl. DataModuleCIFAR10_train_dataloader cdm = Inr tl
           \<and> DataModuleCIFAR10_val_dataloader cdm = Inr vl
           \<and> loader_dataset tl = train_dataset cdm
           \<and> train_dataset cdm = \<lparr>cifar_root = DATAPATH, cifar_train = True,
                                    cifar_download = True, cifar_transform = transform\<rparr>
           \<and> loader_dataset vl = val_dataset cdm
           \<and> val_dataset cdm = \<lparr>cifar_root = DATAPATH, cifar_train = False,
                                  cifar_download = True, cifar_transform = transform\<rparr>
           \<and> loader_batch_size tl = bs' \<and> loader_batch_size vl = bs'
           \<and> loader_shuffle tl \<and> \<not> loader_shuffle vl
           \<and> loader_num_workers tl = 4 \<and> loader_num_workers vl = 4
           \<and> (\<forall>dl \<in> {tl, vl}. loader_sampler dl = None \<and> loader_batch_sampler dl = None
                 \<and> loader_collate_fn dl = None))
     \<and> transform = [ToTensor, Normalize [1 / 2, 1 / 2, 1 / 2] [1 / 2, 1 / 2, 1 / 2]]
     \<and> filter (\<lambda>m. m \<in> set dataloader_hooks) DataModule_methods
         = [''train_dataloader'', ''val_dataloader'']
     \<and> filter (\<lambda>m. m \<in> set dataloader_hooks) DataModuleCIFAR10_methods
         = [''train_dataloader'', ''val_dataloader'']
     \<and> (\<forall>d. batch_size d \<le> 0 \<longrightarrow>
           DataModule_val_dataloader d = Inl ValueError
           \<and> (\<exists>e. DataModule_train_dataloader d = Inl e))
     \<and> (\<forall>d. batch_size d \<le> 0 \<longrightarrow>
           DataModuleCIFAR10_val_dataloader d = Inl ValueError
           \<and> DataModuleCIFAR10_train_dataloader d = Inl ValueError)"
proof -
  let ?ds = "\<lparr>tensors = [x, y]\<rparr>"
  from DataModule_init_Inr [OF reg] have
    dm: "dm = \<lparr>train_dataset = ?ds, val_dataset = ?ds, batch_size = bs\<rparr>"
    by simp
  note cdm = CIFAR_init_Inr [OF cif]
  from len have dl: "dataset_len ?ds = Inr n" by (simp add: dm)
  have mt: "DataModule_train_dataloader dm =
      Inr \<lparr>loader_dataset = ?ds, loader_batch_size = bs, loader_shuffle = True,
           loader_num_workers = 0, loader_sampler = None,
           loader_batch_sampler = None, loader_collate_fn = None\<rparr>"
    using DataLoader_Inr [of bs True dataset_len ?ds 0] bs dl n
    by (simp add: DataModule_train_dataloader_def dm)
  have mv: "DataModule_val_dataloader dm =
      Inr \<lparr>loader_dataset = ?ds, loader_batch_size = bs, loader_shuffle = False,
           loader_num_workers = 0, loader_sampler = None,
           loader_batch_sampler = None, loader_collate_fn = None\<rparr>"
    using DataLoader_Inr [of bs False dataset_len ?ds 0] bs
    by (simp add: DataModule_val_dataloader_def dm)
  have ct: "DataModuleCIFAR10_train_dataloader cdm =
      Inr \<lparr>loader_dataset = train_dataset cdm, loader_batch_size = bs', loader_shuffle = True,
           loader_num_workers = 4, loader_sampler = None,
           loader_batch_sampler = None, loader_collate_fn = None\<rparr>"
    using DataLoader_Inr [of bs' True cifar10_len "train_dataset cdm" 4] bs'
    by (simp add: DataModuleCIFAR10_train_dataloader_def cdm cifar10_len_def)
  have cv: "DataModuleCIFAR10_val_dataloader cdm =
      Inr \<lparr>loader_dataset = val_dataset cdm, loader_batch_size = bs', loader_shuffle = False,
           loader_num_workers = 4, loader_sampler = None,
           loader_batch_sampler = None, loader_collate_fn = None\<rparr>"
    using DataLoader_Inr [of bs' False cifar10_len "val_dataset cdm" 4] bs'
    by (simp add: DataModuleCIFAR10_val_dataloader_def cdm)
  have regression: "\<exists>tl vl. DataModule_train_dataloader dm = Inr tl \<and> DataModule_val_dataloader dm = Inr vl
           \<and> loader_dataset tl = train_dataset dm \<and> train_dataset dm = \<lparr>tensors = [x, y]\<rparr>
           \<and> loader_dataset vl = val_dataset dm \<and> val_dataset dm = \<lparr>tensors = [x, y]\<rparr>
           \<and> loader_batch_size tl = bs \<and> loader_batch_size vl = bs
           \<and> loader_shuffle tl \<and> \<not> loader_shuffle vl
           \<and> (\<forall>dl \<in> {tl, vl}. loader_sampler dl = None \<and> loader_batch_sampler dl = None
                 \<and> loader_collate_fn dl = None)"
    unfolding mt mv by (simp add: dm)
  have cifar: "\<exists>tl vl. DataModuleCIFAR10_train_dataloader cdm = Inr tl
           \<and> DataModuleCIFAR10_val_dataloader cdm = Inr vl
           \<and> loader_dataset tl = train_dataset cdm
           \<and> train_dataset cdm = \<lparr>cifar_root = DATAPATH, cifar_train = True,
                                    cifar_download = True, cifar_transform = transform\<rparr>
           \<and> loader_dataset vl = val_dataset cdm
           \<and> val_dataset cdm = \<lparr>cifar_root = DATAPATH, cifar_train = False,
                                  cifar_download = True, cifar_transform = transform\<rparr>
           \<and> loader_batch_size tl = bs' \<and> loader_batch_size vl = bs'
           \<and> loader_shuffle tl \<and> \<not> loader_shuffle vl
           \<and> loader_num_workers tl = 4 \<and> loader_num_workers vl = 4
           \<and> (\<forall>dl \<in> {tl, vl}. loader_sampler dl = None \<and> loader_batch_sampler dl = None
                 \<and> loader_collate_fn dl = None)"
    unfolding ct cv by (simp add: cdm)
  have tf: "transform = [ToTensor, Normalize [1 / 2, 1 / 2, 1 / 2] [1 / 2, 1 / 2, 1 / 2]]"
    by (simp add: transform_def)
  have m1: "filter (\<lambda>m. m \<in> set dataloader_hooks) DataModule_methods
         = [''train_dataloader'', ''val_dataloader'']"
    by (simp add: dataloader_hooks_def DataModule_methods_def)
  have m2: "filter (\<lambda>m. m \<in> set dataloader_hooks) DataModuleCIFAR10_methods
         = [''train_dataloader'', ''val_dataloader'']"
    by (simp add: dataloader_hooks_def DataModuleCIFAR10_methods_def)
  have r1: "\<forall>d. batch_size d \<le> 0 \<longrightarrow>
           DataModule_val_dataloader d = Inl ValueError
           \<and> (\<exists>e. DataModule_train_dataloader d = Inl e)"
    by (auto simp add: DataModule_val_dataloader_def DataModule_train_dataloader_def
        DataLoader_def RandomSampler_check_def split: sum.splits)
  have r2: "\<forall>d. batch_size d \<le> 0 \<longrightarrow>
           DataModuleCIFAR10_val_dataloader d = Inl ValueError
           \<and> DataModuleCIFAR10_train_dataloader d = Inl ValueError"
    by (simp add: DataModuleCIFAR10_val_dataloader_def DataModuleCIFAR10_train_dataloader_def
        DataLoader_def RandomSampler_check_def cifar10_len_def)
  from regression cifar tf m1 m2 r1 r2 show ?thesis by (intro conjI)
qed

theorem data_module_dataloaders_witness:
  "DataModule_init x3 y3 2 = Inr dm3
   \<and> dataset_len (train_dataset dm3) = Inr 3 \<and> (0::nat) < 3 \<and> (0::int) < 2 \<and> (0::int) < 512
   \<and> (\<exists>cdm. DataModuleCIFAR10_init True 512 = Inr cdm
        \<and> (\<exists>tl vl. DataModule_train_dataloader dm3 = Inr tl \<and> DataModule_val_dataloader dm3 = Inr vl
              \<and> loader_dataset vl = \<lparr>tensors = [x3, y3]\<rparr> \<and> loader_batch_size tl = 2)
        \<and> (\<exists>tl vl. DataModuleCIFAR10_train_dataloader cdm = Inr tl
              \<and> DataModuleCIFAR10_val_dataloader cdm = Inr vl
              \<and> loader_batch_size tl = 512 \<and> loader_dataset vl = val_dataset cdm))"
proof -
  have i: "DataModule_init x3 y3 2 = Inr dm3"
    by (simp add: DataModule_init_def TensorDataset_def size0_def x3_def y3_def dm3_def)
  have l: "dataset_len (train_dataset dm3) = Inr 3"
    by (simp add: dataset_len_def size0_def x3_def dm3_def)
  have n: "(0::nat) < 3" and b: "(0::int) < 2" and b': "(0::int) < 512" by simp_all
  obtain cdm where c: "DataModuleCIFAR10_init True 512 = Inr cdm"
    by (simp add: DataModuleCIFAR10_init_def CIFAR10_def)
  note t = data_module_dataloaders [OF i l n b c b']
  from t obtain tl vl where
    "DataModule_train_dataloader dm3 = Inr tl" "DataModule_val_dataloader dm3 = Inr vl"
    "loader_dataset vl = val_dataset dm3" "val_dataset dm3 = \<lparr>tensors = [x3, y3]\<rparr>"
    "loader_batch_size tl = 2"
    by (elim conjE exE)
  then have r: "\<exists>tl vl. DataModule_train_dataloader dm3 = Inr tl \<and> DataModule_val_dataloader dm3 = Inr vl
              \<and> loader_dataset vl = \<lparr>tensors = [x3, y3]\<rparr> \<and> loader_batch_size tl = 2"
    by simp
  from t obtain ctl cvl where
    "DataModuleCIFAR10_train_dataloader cdm = Inr ctl" "DataModuleCIFAR10_val_dataloader cdm = Inr cvl"
    "loader_batch_size ctl = 512" "loader_dataset cvl = val_dataset cdm"
    by (elim conjE exE)
  then have s: "\<exists>tl vl. DataModuleCIFAR10_train_dataloader cdm = Inr tl
              \<and> DataModuleCIFAR10_val_dataloader cdm = Inr vl
              \<and> loader_batch_size tl = 512 \<and> loader_dataset vl = val_dataset cdm"
    by simp
  from c r s have "\<exists>cdm. DataModuleCIFAR10_init True 512 = Inr cdm
        \<and> (\<exists>tl vl. DataModule_train_dataloader dm3 = Inr tl \<and> DataModule_val_dataloader dm3 = Inr vl
              \<and> loader_dataset vl = \<lparr>tensors = [x3, y3]\<rparr> \<and> loader_batch_size tl = 2)
        \<and> (\<exists>tl vl. DataModuleCIFAR10_train_dataloader cdm = Inr tl
              \<and> DataModuleCIFAR10_val_dataloader cdm = Inr vl
              \<and> loader_batch_size tl = 512 \<and> loader_dataset vl = val_dataset cdm)"
    by (intro exI [of _ cdm] conjI)
  with i l n b b' show ?thesis by (intro conjI)
qed

text \<open>
  C4 as stated fails for a stored batch size of 0: the data module is built,
  and both accessors raise inside the library's \<open>DataLoader\<close> constructor
  instead of returning a loader.
\<close>

theorem accessor_returns_loader_counterexample:
  "DataModule_init x3 y3 0 = Inr (dm3\<lparr>batch_size := 0\<rparr>)
   \<and> DataModule_train_dataloader (dm3\<lparr>batch_size := 0\<rparr>) = Inl ValueError
   \<and> DataModule_val_dataloader (dm3\<lparr>batch_size := 0\<rparr>) = Inl ValueError"
  by (simp add: DataModule_init_def TensorDataset_def size0_def x3_def y3_def dm3_def
      DataModule_train_dataloader_def DataModule_val_dataloader_def DataLoader_def
      RandomSampler_check_def dataset_len_def)

section \<open>The Slack client configuration\<close>

lemma environ_get_restrict:
  "name \<in> S \<Longrightarrow> environ_get (env |` S) name = environ_get env name"
  by (simp add: environ_get_def)

lemma environ_get_upd:
  "environ_get (env(k \<mapsto> v)) name = (if name = k then Inr v else environ_get env name)"
  by (simp add: environ_get_def)

text \<open>
  C6. The messaging client is configured from exactly three environment
  variables, the application token, the bot token and the default channel
  identifier: its construction depends on no other name. No value is validated:
  any three strings are accepted as they are, and the three empty strings the
  first cell stores give a client with three empty fields.
\<close>

theorem slack_client_configuration:
  "SlackClient_init (set_slack_environment env)
     = Inr \<lparr>app_token = [], bot_token = [], default_channel_id = []\<rparr>
   \<and> SlackClient_init (env(''SLACK_APP_TOKEN'' \<mapsto> a, ''SLACK_BOT_TOKEN'' \<mapsto> b,
                            ''SLACK_DEFAULT_CHANNEL_ID'' \<mapsto> c))
     = Inr \<lparr>app_token = a, bot_token = b, default_channel_id = c\<rparr>
   \<and> SlackClient_init env
     = SlackClient_init
         (env |` {''SLACK_APP_TOKEN'', ''SLACK_BOT_TOKEN'', ''SLACK_DEFAULT_CHANNEL_ID''})"
proof (intro conjI)
  show "SlackClient_init (set_slack_environment env)
     = Inr \<lparr>app_token = [], bot_token = [], default_channel_id = []\<rparr>"
    by (simp add: SlackClient_init_def set_slack_environment_def environ_get_upd)
  show "SlackClient_init (env(''SLACK_APP_TOKEN'' \<mapsto> a, ''SLACK_BOT_TOKEN'' \<mapsto> b,
                            ''SLACK_DEFAULT_CHANNEL_ID'' \<mapsto> c))
     = Inr \<lparr>app_token = a, bot_token = b, default_channel_id = c\<rparr>"
    by (simp add: SlackClient_init_def environ_get_upd)
  show "SlackClient_init env
     = SlackClient_init
         (env |` {''SLACK_APP_TOKEN'', ''SLACK_BOT_TOKEN'', ''SLACK_DEFAULT_CHANNEL_ID''})"
  proof -
    let ?S = "{''SLACK_APP_TOKEN'', ''SLACK_BOT_TOKEN'', ''SLACK_DEFAULT_CHANNEL_ID''}"
    have eqs: "environ_get (env |` ?S) ''SLACK_APP_TOKEN'' = environ_get env ''SLACK_APP_TOKEN''"
      "environ_get (env |` ?S) ''SLACK_BOT_TOKEN'' = environ_get env ''SLACK_BOT_TOKEN''"
      "environ_get (env |` ?S) ''SLACK_DEFAULT_CHANNEL_ID''
             = environ_get env ''SLACK_DEFAULT_CHANNEL_ID''"
      by (simp_all add: environ_get_restrict)
    show ?thesis
      unfolding SlackClient_init_def eqs by (rule refl)
  qed
qed

theorem slack_client_configuration_witness:
  "SlackClient_init (set_slack_environment Map.empty) = Inr client0
   \<and> SlackClient_init [''SLACK_APP_TOKEN'' \<mapsto> ''a'', ''SLACK_BOT_TOKEN'' \<mapsto> ''b'',
                         ''SLACK_DEFAULT_CHANNEL_ID'' \<mapsto> ''c'']
       = Inr \<lparr>app_token = ''a'', bot_token = ''b'', default_channel_id = ''c''\<rparr>"
  using slack_client_configuration [of Map.empty "''a''" "''b''" "''c''"]
  by (simp add: client0_def)

section \<open>The trainer loop\<close>

lemma hook_eq:
  "0 < n \<Longrightarrow> MonitorTrainingOnSlack_on_train_epoch_end c n w epoch
     = Inr (slack_calls c n w epoch, epoch mod n = 0 \<and> stop_instruction w epoch)"
  by (simp add: MonitorTrainingOnSlack_on_train_epoch_end_def slack_calls_def)

lemma fit_loop_slack:
  assumes n: "0 < n"
  shows "\<exists>k. fit_loop w r e [(MonitorTrainingOnSlack c n, st)] tr
            = Inr (k, tr @ concat (map (slack_calls c n w) [e..<k]))
          \<and> e \<le> k \<and> k \<le> e + r
          \<and> (k < e + r \<longrightarrow> e < k \<and> (k - 1) mod n = 0 \<and> stop_instruction w (k - 1))
          \<and> (\<forall>j. e \<le> j \<and> j + 1 < k \<longrightarrow> \<not> (j mod n = 0 \<and> stop_instruction w j))"
proof (induction r arbitrary: e tr)
  case 0
  show ?case by simp
next
  case (Suc r)
  show ?case
  proof (cases "e mod n = 0 \<and> stop_instruction w e")
    case True
    then show ?thesis
      using n by (intro exI [of _ "Suc e"]) (auto simp add: hook_eq)
  next
    case False
    from Suc.IH [of "Suc e" "tr @ slack_calls c n w e"] obtain k where
      k: "fit_loop w r (Suc e) [(MonitorTrainingOnSlack c n, st)] (tr @ slack_calls c n w e)
            = Inr (k, (tr @ slack_calls c n w e) @ concat (map (slack_calls c n w) [Suc e..<k]))"
      and b: "Suc e \<le> k" "k \<le> Suc e + r"
      and s: "k < Suc e + r \<longrightarrow> Suc e < k \<and> (k - 1) mod n = 0 \<and> stop_instruction w (k - 1)"
      and q: "\<forall>j. Suc e \<le> j \<and> j + 1 < k \<longrightarrow> \<not> (j mod n = 0 \<and> stop_instruction w j)"
      by (elim exE conjE)
    from b have up: "[e..<k] = e # [Suc e..<k]" by (simp add: upt_conv_Cons)
    have q': "\<forall>j. e \<le> j \<and> j + 1 < k \<longrightarrow> \<not> (j mod n = 0 \<and> stop_instruction w j)"
    proof (intro allI impI)
      fix j assume j: "e \<le> j \<and> j + 1 < k"
      show "\<not> (j mod n = 0 \<and> stop_instruction w j)"
      proof (cases "j = e")
        case True
        with False show ?thesis by simp
      next
        case False
        with j have "Suc e \<le> j \<and> j + 1 < k" by simp
        then show ?thesis by (rule q [rule_format])
      qed
    qed
    have step: "fit_loop w (Suc r) e [(MonitorTrainingOnSlack c n, st)] tr
            = fit_loop w r (Suc e) [(MonitorTrainingOnSlack c n, st)] (tr @ slack_calls c n w e)"
    proof (cases "e mod n = 0")
      case True
      with False have "\<not> stop_instruction w e" by simp
      with n show ?thesis by (simp add: hook_eq)
    next
      case False
      with n show ?thesis by (simp add: hook_eq)
    qed
    have tr: "(tr @ slack_calls c n w e) @ concat (map (slack_calls c n w) [Suc e..<k])
            = tr @ concat (map (slack_calls c n w) [e..<k])"
      by (simp add: up)
    have r1: "fit_loop w (Suc r) e [(MonitorTrainingOnSlack c n, st)] tr
            = Inr (k, tr @ concat (map (slack_calls c n w) [e..<k]))"
      using step k tr by simp
    from b have r2: "e \<le> k" and r3: "k \<le> e + Suc r" by simp_all
    from s b have r4: "k < e + Suc r \<longrightarrow> e < k \<and> (k - 1) mod n = 0 \<and> stop_instruction w (k - 1)"
      by simp
    from r1 r2 r3 r4 q' show ?thesis by (intro exI [of _ k] conjI)
  qed
qed

lemma fit_loop_bound:
  "fit_loop w r e cbs tr = Inr (k, tr') \<Longrightarrow> e \<le> k \<and> k \<le> e + r"
proof (induction r arbitrary: e cbs tr)
  case 0
  then show ?case by simp
next
  case (Suc r)
  show ?case
  proof (cases "run_callbacks w e cbs")
    case (Inl err)
    with Suc.prems show ?thesis by simp
  next
    case (Inr res)
    obtain cbs' stop calls where res: "res = (cbs', stop, calls)" by (cases res) auto
    show ?thesis
    proof (cases stop)
      case True
      with Suc.prems Inr res show ?thesis by simp
    next
      case False
      with Suc.prems Inr res have "fit_loop w r (Suc e) cbs' (tr @ calls) = Inr (k, tr')" by simp
      from Suc.IH [OF this] show ?thesis by simp
    qed
  qed
qed

section \<open>The Slack callback\<close>

text \<open>
  C5. On its cadence (every \<open>log_every_n_epoch\<close> epochs, for a positive cadence)
  the Slack callback makes exactly two external calls, in this order: it sends
  the status string to the messaging service and it polls the channel for a stop
  instruction, asking the trainer to stop when one is there. Off the cadence it
  makes no call. It leaves its state as it was. Over a whole run with this
  callback alone the external calls are exactly these, epoch by epoch, with no
  retry, no repetition and no reordering, and the run ends at the first polled
  stop instruction or at \<open>max_epochs\<close>.
\<close>

theorem slack_callback_two_calls:
  assumes n: "0 < n"
  shows "MonitorTrainingOnSlack_on_train_epoch_end c n w epoch
           = Inr (slack_calls c n w epoch, epoch mod n = 0 \<and> stop_instruction w epoch)
     \<and> (epoch mod n = 0 \<longrightarrow>
          slack_calls c n w epoch
            = [SendMessage (default_channel_id c) (status w epoch), PollStop (default_channel_id c)])
     \<and> (epoch mod n \<noteq> 0 \<longrightarrow> slack_calls c n w epoch = [])
     \<and> on_epoch_end w epoch (MonitorTrainingOnSlack c n) st
           = Inr (st, epoch mod n = 0 \<and> stop_instruction w epoch, slack_calls c n w epoch)
     \<and> (\<exists>k. fit \<lparr>max_epochs = m, log_every_n_steps = ls, check_val_every_n_epoch = cv,
                 callbacks = [MonitorTrainingOnSlack c n]\<rparr> w
               = Inr (k, concat (map (slack_calls c n w) [0..<k]))
           \<and> k \<le> m
           \<and> (\<forall>j. j + 1 < k \<longrightarrow> \<not> (j mod n = 0 \<and> stop_instruction w j))
           \<and> (k < m \<longrightarrow> 0 < k \<and> (k - 1) mod n = 0 \<and> stop_instruction w (k - 1)))"
proof -
  let ?t = "\<lparr>max_epochs = m, log_every_n_steps = ls, check_val_every_n_epoch = cv,
             callbacks = [MonitorTrainingOnSlack c n]\<rparr>"
  from fit_loop_slack [OF n, of w m 0 c es_initial "[]"] obtain k where
    k: "fit_loop w m 0 [(MonitorTrainingOnSlack c n, es_initial)] []
          = Inr (k, [] @ concat (map (slack_calls c n w) [0..<k]))"
    and b: "k \<le> 0 + m"
    and s: "k < 0 + m \<longrightarrow> 0 < k \<and> (k - 1) mod n = 0 \<and> stop_instruction w (k - 1)"
    and q: "\<forall>j. 0 \<le> j \<and> j + 1 < k \<longrightarrow> \<not> (j mod n = 0 \<and> stop_instruction w j)"
    by (elim exE conjE)
  have f: "fit ?t w = Inr (k, concat (map (slack_calls c n w) [0..<k]))"
    using k by (simp add: fit_def reorder_callbacks_def)
  have run: "\<exists>k. fit ?t w = Inr (k, concat (map (slack_calls c n w) [0..<k]))
           \<and> k \<le> m
           \<and> (\<forall>j. j + 1 < k \<longrightarrow> \<not> (j mod n = 0 \<and> stop_instruction w j))
           \<and> (k < m \<longrightarrow> 0 < k \<and> (k - 1) mod n = 0 \<and> stop_instruction w (k - 1))"
  proof (intro exI [of _ k] conjI)
    show "fit ?t w = Inr (k, concat (map (slack_calls c n w) [0..<k]))" by (rule f)
    show "k \<le> m" using b by simp
    show "\<forall>j. j + 1 < k \<longrightarrow> \<not> (j mod n = 0 \<and> stop_instruction w j)" using q by simp
    show "k < m \<longrightarrow> 0 < k \<and> (k - 1) mod n = 0 \<and> stop_instruction w (k - 1)" using s by simp
  qed
  have h: "MonitorTrainingOnSlack_on_train_epoch_end c n w epoch
           = Inr (slack_calls c n w epoch, epoch mod n = 0 \<and> stop_instruction w epoch)"
    by (rule hook_eq [OF n])
  have c1: "epoch mod n = 0 \<longrightarrow>
          slack_calls c n w epoch
            = [SendMessage (default_channel_id c) (status w epoch), PollStop (default_channel_id c)]"
    by (simp add: slack_calls_def)
  have c2: "epoch mod n \<noteq> 0 \<longrightarrow> slack_calls c n w epoch = []"
    by (simp add: slack_calls_def)
  have o: "on_epoch_end w epoch (MonitorTrainingOnSlack c n) st
           = Inr (st, epoch mod n = 0 \<and> stop_instruction w epoch, slack_calls c n w epoch)"
    by (simp add: h)
  from h c1 c2 o run show ?thesis by (intro conjI)
qed

theorem slack_callback_two_calls_witness:
  "(0::nat) < 1
   \<and> on_epoch_end world_flat 3 (MonitorTrainingOnSlack client0 1) es_initial
        = Inr (es_initial, False, [SendMessage [] ''status'', PollStop []])
   \<and> (\<exists>k. fit (trainer_slack client0) world_flat
              = Inr (k, concat (map (slack_calls client0 1 world_flat) [0..<k])) \<and> k \<le> 50)
   \<and> (0::nat) < 2 \<and> (3::nat) mod 2 \<noteq> 0
   \<and> on_epoch_end world_flat 3 (MonitorTrainingOnSlack client0 2) es_initial
        = Inr (es_initial, False, [])"
proof -
  have n: "(0::nat) < 1" by simp
  have n2: "(0::nat) < 2" and odd: "(3::nat) mod 2 \<noteq> 0" by simp_all
  note t2 = slack_callback_two_calls [OF n2, of client0 world_flat 3 es_initial 50 1 1]
  from t2 odd have e: "slack_calls client0 2 world_flat 3 = []" by simp
  from t2 have "on_epoch_end world_flat 3 (MonitorTrainingOnSlack client0 2) es_initial
        = Inr (es_initial, 3 mod 2 = (0::nat) \<and> stop_instruction world_flat 3,
               slack_calls client0 2 world_flat 3)"
    by (elim conjE)
  then have off: "on_epoch_end world_flat 3 (MonitorTrainingOnSlack client0 2) es_initial
        = Inr (es_initial, False, [])"
    unfolding e by simp
  note t = slack_callback_two_calls [OF n, of client0 world_flat 3 es_initial 50 1 1]
  have c: "slack_calls client0 1 world_flat 3 = [SendMessage [] ''status'', PollStop []]"
    by (simp add: slack_calls_def world_flat_def client0_def)
  have s: "\<not> stop_instruction world_flat 3" by (simp add: world_flat_def)
  have tr: "trainer_slack client0 = \<lparr>max_epochs = 50, log_every_n_steps = 1,
       check_val_every_n_epoch = 1, callbacks = [MonitorTrainingOnSlack client0 1]\<rparr>"
    by (simp add: trainer_slack_def slack_callbacks_def)
  from t have "on_epoch_end world_flat 3 (MonitorTrainingOnSlack client0 1) es_initial
        = Inr (es_initial, 3 mod 1 = (0::nat) \<and> stop_instruction world_flat 3,
               slack_calls client0 1 world_flat 3)"
    by (elim conjE)
  then have a: "on_epoch_end world_flat 3 (MonitorTrainingOnSlack client0 1) es_initial
        = Inr (es_initial, False, [SendMessage [] ''status'', PollStop []])"
    unfolding c using s by simp
  from t obtain k where "fit (trainer_slack client0) world_flat
      = Inr (k, concat (map (slack_calls client0 1 world_flat) [0..<k]))" "k \<le> 50"
    unfolding tr by (elim conjE exE)
  then have b: "\<exists>k. fit (trainer_slack client0) world_flat
              = Inr (k, concat (map (slack_calls client0 1 world_flat) [0..<k])) \<and> k \<le> 50"
    by (intro exI conjI)
  from n a b n2 odd off show ?thesis by (intro conjI)
qed

section \<open>What can stop a run early\<close>

lemma run_callbacks_checkpoints:
  "list_all (\<lambda>p. is_ModelCheckpoint (fst p)) cbs \<Longrightarrow>
   run_callbacks w e cbs = Inr (cbs', stop, calls) \<Longrightarrow>
   cbs' = cbs \<and> \<not> stop \<and> calls = []"
proof (induction cbs arbitrary: cbs' stop calls)
  case Nil
  then show ?case by simp
next
  case (Cons p cbs)
  obtain cb st where p: "p = (cb, st)" by (cases p) auto
  from Cons.prems(1) p obtain d f mon k mo v where cb: "cb = ModelCheckpoint d f mon k mo v"
    by (cases cb) auto
  from Cons.prems(1) have rest: "list_all (\<lambda>p. is_ModelCheckpoint (fst p)) cbs" by simp
  from Cons.prems(2) obtain rest' stop' calls' where
    r: "run_callbacks w e cbs = Inr (rest', stop', calls')"
    and res: "cbs' = (cb, st) # rest'" "stop = stop'" "calls = calls'"
    by (auto simp add: p cb split: if_splits sum.splits)
  from Cons.IH [OF rest r] res p show ?case by simp
qed

lemma fit_loop_checkpoints:
  "list_all (\<lambda>p. is_ModelCheckpoint (fst p)) cbs \<Longrightarrow>
   fit_loop w r e cbs tr = Inr (k, tr') \<Longrightarrow> k = e + r \<and> tr' = tr"
proof (induction r arbitrary: e)
  case 0
  then show ?case by simp
next
  case (Suc r)
  from Suc.prems(2) obtain cbs' stop calls where
    rc: "run_callbacks w e cbs = Inr (cbs', stop, calls)"
    by (auto split: sum.splits)
  from run_callbacks_checkpoints [OF Suc.prems(1) rc]
  have same: "cbs' = cbs" "\<not> stop" "calls = []" by simp_all
  with Suc.prems(2) rc have "fit_loop w r (Suc e) cbs tr = Inr (k, tr')" by simp
  from Suc.IH [OF Suc.prems(1) this] show ?case by simp
qed

lemma fit_loop_no_callbacks: "fit_loop w r e [] tr = Inr (e + r, tr)"
  by (induction r arbitrary: e) simp_all

lemma passive_callbacks:
  assumes "\<not> list_ex is_EarlyStopping cbs" "\<not> list_ex is_MonitorTrainingOnSlack cbs"
  shows "list_all (\<lambda>p. is_ModelCheckpoint (fst p))
           (map (\<lambda>cb. (cb, es_initial)) (reorder_callbacks cbs))"
proof -
  have "list_all is_ModelCheckpoint cbs"
    using assms
  proof (induction cbs)
    case Nil
    then show ?case by simp
  next
    case (Cons cb cbs)
    then show ?case by (cases cb) auto
  qed
  then show ?thesis
    by (auto simp add: reorder_callbacks_def list_all_iff)
qed

lemma fit_builtin_no_improvement:
  assumes "logged w 0 ''val_loss'' = Some (Finite a)"
    and "logged w 1 ''val_loss'' = Some (Finite b)"
    and "a \<le> b"
  shows "fit trainer_builtin w = Inr (2, [])"
  using assms
  by (simp add: fit_def trainer_builtin_def builtin_callbacks_def reorder_callbacks_def
      es_initial_def EarlyStopping_check_def eval_nat_numeral)

lemma fit_slack_first_stop:
  "\<exists>k. fit (trainer_slack c) w = Inr (k, concat (map (slack_calls c 1 w) [0..<k]))
       \<and> k \<le> 50 \<and> (k < 50 \<longleftrightarrow> (\<exists>j<49. stop_instruction w j))"
proof -
  have one: "(0::nat) < 1" by simp
  from fit_loop_slack [OF one, of w 50 0 c es_initial "[]"] obtain k where
    k: "fit_loop w 50 0 [(MonitorTrainingOnSlack c 1, es_initial)] []
          = Inr (k, [] @ concat (map (slack_calls c 1 w) [0..<k]))"
    and b: "k \<le> 0 + 50"
    and s: "k < 0 + 50 \<longrightarrow> 0 < k \<and> (k - 1) mod 1 = 0 \<and> stop_instruction w (k - 1)"
    and q: "\<forall>j. 0 \<le> j \<and> j + 1 < k \<longrightarrow> \<not> (j mod 1 = 0 \<and> stop_instruction w j)"
    by (elim exE conjE)
  have f: "fit (trainer_slack c) w = Inr (k, concat (map (slack_calls c 1 w) [0..<k]))"
    using k by (simp add: fit_def trainer_slack_def slack_callbacks_def reorder_callbacks_def)
  have early: "k < 50 \<longleftrightarrow> (\<exists>j<49. stop_instruction w j)"
  proof
    assume lt: "k < 50"
    with s have pos: "0 < k" and st: "stop_instruction w (k - 1)" by simp_all
    from lt pos have "k - 1 < 49" by simp
    with st show "\<exists>j<49. stop_instruction w j" by (intro exI [of _ "k - 1"]) simp
  next
    assume "\<exists>j<49. stop_instruction w j"
    then obtain j where j: "j < 49" "stop_instruction w j" by (elim exE conjE)
    show "k < 50"
    proof (rule ccontr)
      assume "\<not> k < 50"
      with b have "k = 50" by simp
      with j(1) have "0 \<le> j \<and> j + 1 < k" by simp
      then have "\<not> (j mod 1 = 0 \<and> stop_instruction w j)" by (rule q [rule_format])
      with j(2) show False by simp
    qed
  qed
  from b have b': "k \<le> 50" by simp
  from f b' early show ?thesis by (intro exI [of _ k] conjI)
qed

lemma fit_slack_stop_at_once:
  "stop_instruction w 0 \<Longrightarrow>
   fit (trainer_slack c) w
     = Inr (1, [SendMessage (default_channel_id c) (status w 0), PollStop (default_channel_id c)])"
  by (simp add: fit_def trainer_slack_def slack_callbacks_def reorder_callbacks_def
      MonitorTrainingOnSlack_on_train_epoch_end_def eval_nat_numeral)

text \<open>
  C2 (as amended). No run exceeds \<open>max_epochs\<close>, and a run whose callbacks
  include neither \<open>EarlyStopping\<close> nor \<open>MonitorTrainingOnSlack\<close> ends, when it
  ends, after exactly \<open>max_epochs\<close> epochs; the plain runs of both notebooks run
  all their epochs. The notebooks configure two mechanisms that can end a run
  early. One is the patience of \<open>EarlyStopping\<close>: with patience 1, a validation
  loss that does not improve from the first epoch to the second ends the run
  with the built-in callbacks after two of its ten epochs. The other is the stop
  instruction polled by the Slack callback: the run with that callback ends
  before its 50 epochs exactly when a stop instruction is polled after one of
  the first 49, and after the first epoch when one is waiting then.
\<close>

theorem early_stop_mechanisms:
  "(\<forall>k tr. fit t w = Inr (k, tr) \<longrightarrow> k \<le> max_epochs t)
   \<and> (\<not> list_ex is_EarlyStopping (callbacks t)
        \<and> \<not> list_ex is_MonitorTrainingOnSlack (callbacks t)
      \<longrightarrow> (\<forall>k tr. fit t w = Inr (k, tr) \<longrightarrow> k = max_epochs t \<and> tr = []))
   \<and> fit trainer_regression w = Inr (5, [])
   \<and> fit trainer_resnet w = Inr (10, [])
   \<and> (\<forall>a b. logged w 0 ''val_loss'' = Some (Finite a)
          \<and> logged w 1 ''val_loss'' = Some (Finite b) \<and> a \<le> b
        \<longrightarrow> fit trainer_builtin w = Inr (2, []))
   \<and> (\<exists>k tr. fit (trainer_slack c) w = Inr (k, tr) \<and> k \<le> 50
         \<and> (k < 50 \<longleftrightarrow> (\<exists>j<49. stop_instruction w j)))
   \<and> (stop_instruction w 0 \<longrightarrow>
        fit (trainer_slack c) w
          = Inr (1, [SendMessage (default_channel_id c) (status w 0),
                     PollStop (default_channel_id c)]))"
proof (intro conjI)
  show "\<forall>k tr. fit t w = Inr (k, tr) \<longrightarrow> k \<le> max_epochs t"
    unfolding fit_def by (auto dest: fit_loop_bound)
  show "\<not> list_ex is_EarlyStopping (callbacks t)
        \<and> \<not> list_ex is_MonitorTrainingOnSlack (callbacks t)
      \<longrightarrow> (\<forall>k tr. fit t w = Inr (k, tr) \<longrightarrow> k = max_epochs t \<and> tr = [])"
  proof (intro impI allI)
    fix k tr
    assume none: "\<not> list_ex is_EarlyStopping (callbacks t)
        \<and> \<not> list_ex is_MonitorTrainingOnSlack (callbacks t)"
      and r: "fit t w = Inr (k, tr)"
    from none have "list_all (\<lambda>p. is_ModelCheckpoint (fst p))
           (map (\<lambda>cb. (cb, es_initial)) (reorder_callbacks (callbacks t)))"
      by (intro passive_callbacks) simp_all
    from fit_loop_checkpoints [OF this r [unfolded fit_def]]
    show "k = max_epochs t \<and> tr = []" by simp
  qed
  show "fit trainer_regression w = Inr (5, [])"
    by (simp add: fit_def trainer_regression_def reorder_callbacks_def fit_loop_no_callbacks)
  show "fit trainer_resnet w = Inr (10, [])"
    by (simp add: fit_def trainer_resnet_def reorder_callbacks_def fit_loop_no_callbacks)
  show "\<forall>a b. logged w 0 ''val_loss'' = Some (Finite a)
          \<and> logged w 1 ''val_loss'' = Some (Finite b) \<and> a \<le> b
        \<longrightarrow> fit trainer_builtin w = Inr (2, [])"
    by (intro allI impI, elim conjE, rule fit_builtin_no_improvement)
  show "\<exists>k tr. fit (trainer_slack c) w = Inr (k, tr) \<and> k \<le> 50
         \<and> (k < 50 \<longleftrightarrow> (\<exists>j<49. stop_instruction w j))"
  proof -
    from fit_slack_first_stop [of c w] obtain k where
      "fit (trainer_slack c) w = Inr (k, concat (map (slack_calls c 1 w) [0..<k]))"
      "k \<le> 50" "k < 50 \<longleftrightarrow> (\<exists>j<49. stop_instruction w j)"
      by (elim exE conjE)
    then show ?thesis by (intro exI conjI)
  qed
  show "stop_instruction w 0 \<longrightarrow>
        fit (trainer_slack c) w
          = Inr (1, [SendMessage (default_channel_id c) (status w 0),
                     PollStop (default_channel_id c)])"
    by (intro impI, rule fit_slack_stop_at_once)
qed

theorem early_stop_mechanisms_witness:
  "\<not> list_ex is_EarlyStopping (callbacks trainer_resnet)
   \<and> \<not> list_ex is_MonitorTrainingOnSlack (callbacks trainer_resnet)
   \<and> fit trainer_resnet world_stop = Inr (max_epochs trainer_resnet, [])
   \<and> logged world_flat 0 ''val_loss'' = Some (Finite 1)
   \<and> logged world_flat 1 ''val_loss'' = Some (Finite 1)
   \<and> fit trainer_builtin world_flat = Inr (2, []) \<and> (2::nat) \<le> max_epochs trainer_builtin
   \<and> stop_instruction world_stop 0
   \<and> fit (trainer_slack client1) world_stop
       = Inr (1, [SendMessage ''C01'' ''status'', PollStop ''C01''])"
proof -
  note r = early_stop_mechanisms [of trainer_resnet world_stop client1]
  note b = early_stop_mechanisms [of trainer_builtin world_flat client1]
  have n: "\<not> list_ex is_EarlyStopping (callbacks trainer_resnet)"
    "\<not> list_ex is_MonitorTrainingOnSlack (callbacks trainer_resnet)"
    by (simp_all add: trainer_resnet_def)
  from r have p: "fit trainer_resnet world_stop = Inr (max_epochs trainer_resnet, [])"
    by (simp add: trainer_resnet_def)
  have l: "logged world_flat 0 ''val_loss'' = Some (Finite 1)"
    "logged world_flat 1 ''val_loss'' = Some (Finite 1)"
    by (simp_all add: world_flat_def)
  from b l have e: "fit trainer_builtin world_flat = Inr (2, [])" by simp
  from b e have m: "(2::nat) \<le> max_epochs trainer_builtin" by simp
  have s: "stop_instruction world_stop 0" by (simp add: world_stop_def)
  from r s have f: "fit (trainer_slack client1) world_stop
       = Inr (1, [SendMessage ''C01'' ''status'', PollStop ''C01''])"
    by (simp add: world_stop_def client1_def)
  from n p l e m s f show ?thesis by (intro conjI)
qed

text \<open>
  C2 as stated fails on the run with the Slack callback: its trainer has no
  \<open>EarlyStopping\<close> callback, and a stop instruction waiting on the channel ends
  the run after one of its 50 epochs.
\<close>

theorem only_patience_stops_counterexample:
  "fit (trainer_slack client1) world_stop
     = Inr (1, [SendMessage ''C01'' ''status'', PollStop ''C01''])
   \<and> (1::nat) < max_epochs (trainer_slack client1)
   \<and> \<not> list_ex is_EarlyStopping (callbacks (trainer_slack client1))
   \<and> trainer_slack client1 \<in> set (notebook_trainers client1)"
  by (simp add: fit_def trainer_slack_def slack_callbacks_def reorder_callbacks_def
      world_stop_def client1_def MonitorTrainingOnSlack_on_train_epoch_end_def
      notebook_trainers_def eval_nat_numeral)

section \<open>Checkpoint names and the dataset directory\<close>

text \<open>
  C3 (as amended). The checkpoint directory \<open>./models\<close>, the checkpoint filename
  template \<open>resnet18_cifar10_best_{epoch:02d}\<close> and the dataset directory
  \<open>./data\<close> are literals the notebook passes to the library: the checkpoint
  callback of the notebook carries the first two, and both CIFAR10 datasets of
  the data module are rooted at the third. The library only expands the template
  and lays the files out below these directories.
\<close>

theorem repository_supplied_paths:
  "(\<forall>cb \<in> set builtin_callbacks. is_ModelCheckpoint cb \<longrightarrow>
       dirpath cb = Some ''./models''
     \<and> filename cb = Some ''resnet18_cifar10_best_{epoch:02d}''
     \<and> checkpoint_pattern cb = ''resnet18_cifar10_best_{epoch:02d}'')
   \<and> (\<forall>dm. DataModuleCIFAR10_init available bs = Inr dm \<longrightarrow>
         cifar_root (train_dataset dm) = ''./data'' \<and> cifar_root (val_dataset dm) = ''./data'')"
  by (auto simp add: builtin_callbacks_def checkpoint_pattern_def DataModuleCIFAR10_init_def
      CIFAR10_def DATAPATH_def split: if_splits)

theorem repository_supplied_paths_witness:
  "builtin_callbacks ! 1 \<in> set builtin_callbacks \<and> is_ModelCheckpoint (builtin_callbacks ! 1)
   \<and> checkpoint_pattern (builtin_callbacks ! 1) = ''resnet18_cifar10_best_{epoch:02d}''
   \<and> (\<exists>dm. DataModuleCIFAR10_init True 512 = Inr dm \<and> cifar_root (val_dataset dm) = ''./data'')"
proof -
  have m: "builtin_callbacks ! 1 \<in> set builtin_callbacks" "is_ModelCheckpoint (builtin_callbacks ! 1)"
    by (simp_all add: builtin_callbacks_def)
  obtain dm where d: "DataModuleCIFAR10_init True 512 = Inr dm"
    by (simp add: DataModuleCIFAR10_init_def CIFAR10_def)
  note t = repository_supplied_paths [of True 512]
  from t m have "checkpoint_pattern (builtin_callbacks ! 1) = ''resnet18_cifar10_best_{epoch:02d}''"
    by simp
  moreover from t d have "cifar_root (val_dataset dm) = ''./data''" by simp
  ultimately show ?thesis using m d by simp
qed

text \<open>
  C3 as stated fails: the notebook passes a filename template of its own, which
  is not the name the library uses when none is passed, and its own constant
  \<open>DATAPATH\<close> as the directory of both datasets.
\<close>

theorem library_defined_paths_counterexample:
  "filename (builtin_callbacks ! 1) = Some ''resnet18_cifar10_best_{epoch:02d}''
   \<and> filename (builtin_callbacks ! 1) \<noteq> None
   \<and> checkpoint_pattern (builtin_callbacks ! 1) \<noteq> library_checkpoint_filename
   \<and> dirpath (builtin_callbacks ! 1) = Some ''./models''
   \<and> DATAPATH = ''./data''
   \<and> map_sum id (\<lambda>dm. (cifar_root (train_dataset dm), cifar_root (val_dataset dm)))
        (DataModuleCIFAR10_init True 512) = Inr (DATAPATH, DATAPATH)"
  by (simp add: builtin_callbacks_def checkpoint_pattern_def library_checkpoint_filename_def
      DATAPATH_def DataModuleCIFAR10_init_def CIFAR10_def)

end
